theory Spec2Isabelle
  imports Main
begin

section \<open>Abstract syntax (frontend/ast.ts, as the parser and the evaluator use it)\<close>

text \<open>
  One datatype for every node kind the evaluator dispatches on. The type parameter
  \<open>'n\<close> is the host's number type (an IEEE double in the source); its arithmetic is
  a parameter of the evaluator (record \<open>host\<close> below).

  \<^item> \<open>VariableDeclaration constant identifier value\<close>
  \<^item> \<open>FunctionDeclaration name params bodyRef body\<close>: \<open>bodyRef\<close> is the identity of
    the node's \<open>body\<close> array (the evaluator compares function values by that
    identity).
  \<^item> \<open>IfStatement test body alternate\<close>
  \<^item> \<open>ForStatement constant identifier value test assignee update body\<close>: the fields
    of \<open>init\<close> (a VariableDeclaration) and of \<open>update\<close> (an AssignmentExpression:
    assignee and value) are written out, as \<open>evalForStatement\<close> hands them to
    \<open>evaluateVariableDeclaration\<close> and \<open>evaluateAssignment\<close> directly.
  \<^item> \<open>TryCatchStatement body alternate\<close>
  \<^item> \<open>AssignmentExpression assignee value\<close>
  \<^item> \<open>BinaryExpression left right operator\<close>
  \<^item> \<open>CallExpression callee args\<close>
  \<^item> \<open>MemberExpression object property computed\<close>
  \<^item> \<open>ObjectLiteral properties\<close>: each property a key and an optional value.
\<close>

datatype 'n stmt =
    Program "'n stmt list"
  | VariableDeclaration bool string "'n stmt option"
  | FunctionDeclaration string "string list" nat "'n stmt list"
  | IfStatement "'n stmt" "'n stmt list" "'n stmt list option"
  | ForStatement bool string "'n stmt option" "'n stmt" "'n stmt" "'n stmt" "'n stmt list"
  | TryCatchStatement "'n stmt list" "'n stmt list"
  | AssignmentExpression "'n stmt" "'n stmt"
  | BinaryExpression "'n stmt" "'n stmt" string
  | CallExpression "'n stmt" "'n stmt list"
  | MemberExpression "'n stmt" "'n stmt" bool
  | Identifier string
  | NumericLiteral 'n
  | StringLiteral string
  | ArrayLiteral "'n stmt list"
  | ObjectLiteral "(string \<times> 'n stmt option) list"

text \<open>\<open>(node as Identifier).symbol\<close>: the symbol of an Identifier, undefined on any
  other node.\<close>

fun symbolOf :: "'n stmt \<Rightarrow> string option" where
  "symbolOf (Identifier symbol) = Some symbol"
| "symbolOf _ = None"

section \<open>Runtime values (runtime/values.ts)\<close>

text \<open>
  What the evaluator throws. The source throws strings (and the host raises a
  TypeError when a property of \<open>undefined\<close> is read); the message text is abstracted
  to a constructor.
\<close>

datatype error =
    AlreadyDefined string
  | ConstReassign string
  | CannotResolve string
  | UnknownOperator
  | UnhandledType
  | InvalidLeftHandSide
  | NotCallable
  | ArraysNoKeys
  | CannotLookupOrMutate
  | NoMemberOrAssignment
  | HostTypeError
  | NativeFailure string

text \<open>
  The values a variable, a slot or an argument can hold at run time. Eight
  constructors are the tagged RuntimeValue variants. Two more are host values that
  reach the same places without being a RuntimeValue: \<open>Undefined\<close> (a missing
  argument, a missing Map key, an array index out of range) and \<open>Caught e\<close> (the
  thrown host value that try/catch stores in the variable \<open>error\<close>; it has no
  \<open>type\<close> field and no other field).

  \<open>ObjectVal a\<close> and \<open>ArrayVal a\<close> hold the address of the shared Map / array;
  \<open>FnVal name params declarationEnv bodyRef body\<close> holds the address of the
  defining environment; \<open>NativeFnVal k\<close> names a host callback.
\<close>

datatype 'n rvalue =
    Undefined
  | Caught error
  | NullVal
  | BooleanVal bool
  | NumberVal 'n
  | StringVal string
  | ObjectVal nat
  | ArrayVal nat
  | FnVal string "string list" nat nat "'n stmt list"
  | NativeFnVal nat

definition MK_NULL :: "'n rvalue" where
  "MK_NULL = NullVal"

definition MK_BOOL :: "bool \<Rightarrow> 'n rvalue" where
  "MK_BOOL b = BooleanVal b"

definition MK_NUMBER :: "'n \<Rightarrow> 'n rvalue" where
  "MK_NUMBER num = NumberVal num"

text \<open>The \<open>type\<close> field: the tag of a RuntimeValue, undefined on a caught host value.
  (Reading it on \<open>Undefined\<close> raises; every caller tests for that first.)\<close>

fun typeOf :: "'n rvalue \<Rightarrow> string option" where
  "typeOf Undefined = None"
| "typeOf (Caught e) = None"
| "typeOf NullVal = Some ''null''"
| "typeOf (BooleanVal b) = Some ''boolean''"
| "typeOf (NumberVal n) = Some ''number''"
| "typeOf (StringVal s) = Some ''string''"
| "typeOf (ObjectVal a) = Some ''object''"
| "typeOf (ArrayVal a) = Some ''array''"
| "typeOf (FnVal name params env bodyRef body) = Some ''fn''"
| "typeOf (NativeFnVal k) = Some ''native-fn''"

definition isRuntimeValue :: "'n rvalue \<Rightarrow> bool" where
  "isRuntimeValue v = (case typeOf v of None \<Rightarrow> False | Some t \<Rightarrow> True)"

text \<open>
  What a field read yields in the host: \<open>undefined\<close>, \<open>null\<close>, a primitive, or a
  reference (compared by identity).
\<close>

datatype 'n field =
    FUndefined
  | FNull
  | FBool bool
  | FNum 'n
  | FStr string
  | FRef nat

text \<open>The fields \<open>value\<close>, \<open>body\<close>, \<open>call\<close>, \<open>properties\<close> and \<open>elements\<close>,
  read on any non-undefined host value (the source casts without testing).\<close>

fun valueField :: "'n rvalue \<Rightarrow> 'n field" where
  "valueField NullVal = FNull"
| "valueField (BooleanVal b) = FBool b"
| "valueField (NumberVal n) = FNum n"
| "valueField (StringVal s) = FStr s"
| "valueField _ = FUndefined"

fun bodyField :: "'n rvalue \<Rightarrow> 'n field" where
  "bodyField (FnVal name params env bodyRef body) = FRef bodyRef"
| "bodyField _ = FUndefined"

fun callField :: "'n rvalue \<Rightarrow> 'n field" where
  "callField (NativeFnVal k) = FRef k"
| "callField _ = FUndefined"

fun propertiesField :: "'n rvalue \<Rightarrow> 'n field" where
  "propertiesField (ObjectVal a) = FRef a"
| "propertiesField _ = FUndefined"

fun elementsField :: "'n rvalue \<Rightarrow> 'n field" where
  "elementsField (ArrayVal a) = FRef a"
| "elementsField _ = FUndefined"

section \<open>The store: environments, Maps and arrays (runtime/environment.ts)\<close>

record 'n Environment =
  parent :: "nat option"
  variables :: "string \<Rightarrow> 'n rvalue option"
  constants :: "string set"

text \<open>A host array: its indexed elements, and the properties stored under keys that
  are not array indices.\<close>

record 'n ArrayStore =
  elements :: "'n rvalue list"
  keyed :: "string \<Rightarrow> 'n rvalue option"

text \<open>The heap: every Environment, every Map of an object value (keyed by a string or
  by \<open>undefined\<close>, written \<open>None\<close>) and every array, by address.\<close>

record 'n heap =
  envs :: "nat \<Rightarrow> 'n Environment"
  nextEnv :: nat
  maps :: "nat \<Rightarrow> string option \<Rightarrow> 'n rvalue option"
  nextMap :: nat
  arrays :: "nat \<Rightarrow> 'n ArrayStore"
  nextArray :: nat

datatype 'a outcome = Ok 'a | Throw error | Diverge

type_synonym 'n res = "'n rvalue outcome \<times> 'n heap"

type_synonym 'n ev = "'n stmt \<Rightarrow> nat \<Rightarrow> 'n heap \<Rightarrow> 'n res"

text \<open>
  The host: double arithmetic and the native callbacks, both outside the core.
  \<open>num_eq\<close> is \<open>===\<close> on numbers, \<open>num_truthy\<close> the truthiness of a number,
  \<open>num_index n\<close> the array index a number denotes (when it is one) and \<open>num_key n\<close>
  the property key it is converted to otherwise.
\<close>

record 'n host =
  num_add :: "'n \<Rightarrow> 'n \<Rightarrow> 'n"
  num_sub :: "'n \<Rightarrow> 'n \<Rightarrow> 'n"
  num_mul :: "'n \<Rightarrow> 'n \<Rightarrow> 'n"
  num_div :: "'n \<Rightarrow> 'n \<Rightarrow> 'n"
  num_rem :: "'n \<Rightarrow> 'n \<Rightarrow> 'n"
  num_lt :: "'n \<Rightarrow> 'n \<Rightarrow> bool"
  num_gt :: "'n \<Rightarrow> 'n \<Rightarrow> bool"
  num_eq :: "'n \<Rightarrow> 'n \<Rightarrow> bool"
  num_truthy :: "'n \<Rightarrow> bool"
  num_index :: "'n \<Rightarrow> nat option"
  num_key :: "'n \<Rightarrow> string"
  native_call :: "nat \<Rightarrow> 'n rvalue list \<Rightarrow> nat \<Rightarrow> 'n heap \<Rightarrow> 'n res"

text \<open>Sequencing: a throw (or divergence) of the first step ends the computation,
  keeping the store as it is then.\<close>

definition andThen :: "'a outcome \<times> 'h \<Rightarrow> ('a \<Rightarrow> 'h \<Rightarrow> 'b outcome \<times> 'h) \<Rightarrow> 'b outcome \<times> 'h" where
  "andThen r f =
     (case r of
        (Ok v, st) \<Rightarrow> f v st
      | (Throw e, st) \<Rightarrow> (Throw e, st)
      | (Diverge, st) \<Rightarrow> (Diverge, st))"

subsection \<open>class Environment\<close>

definition newEnvironment :: "nat option \<Rightarrow> 'n heap \<Rightarrow> nat \<times> 'n heap" where
  "newEnvironment parentEnv st =
     (nextEnv st,
      st\<lparr>envs := (envs st)(nextEnv st :=
             \<lparr>parent = parentEnv, variables = (\<lambda>k. None), constants = {}\<rparr>),
         nextEnv := Suc (nextEnv st)\<rparr>)"

text \<open>
  \<open>resolve\<close> walks the parent links. A parent is always created before its child, so
  its address is smaller; the guard \<open>p < this\<close> states that (it makes the walk
  terminate on any store), and a store that broke it would make the source loop.
\<close>

function resolve :: "'n heap \<Rightarrow> string \<Rightarrow> nat \<Rightarrow> nat outcome" where
  "resolve st varname this =
     (if variables (envs st this) varname \<noteq> None then Ok this
      else (case parent (envs st this) of
              None \<Rightarrow> Throw (CannotResolve varname)
            | Some p \<Rightarrow> if p < this then resolve st varname p else Diverge))"
  by pat_completeness auto
termination
  by (relation "measure (\<lambda>(st, varname, this). this)") auto

declare resolve.simps [simp del]

definition setVariable :: "nat \<Rightarrow> string \<Rightarrow> 'n rvalue \<Rightarrow> 'n heap \<Rightarrow> 'n heap" where
  "setVariable env varname v st =
     st\<lparr>envs := (envs st)(env := (envs st env)\<lparr>variables := (variables (envs st env))(varname \<mapsto> v)\<rparr>)\<rparr>"

definition addConstant :: "nat \<Rightarrow> string \<Rightarrow> 'n heap \<Rightarrow> 'n heap" where
  "addConstant env varname st =
     st\<lparr>envs := (envs st)(env := (envs st env)\<lparr>constants := insert varname (constants (envs st env))\<rparr>)\<rparr>"

definition getVariable :: "nat \<Rightarrow> string \<Rightarrow> 'n heap \<Rightarrow> 'n rvalue" where
  "getVariable env varname st =
     (case variables (envs st env) varname of None \<Rightarrow> Undefined | Some v \<Rightarrow> v)"

definition declareVariable :: "nat \<Rightarrow> string \<Rightarrow> 'n rvalue \<Rightarrow> bool \<Rightarrow> 'n heap \<Rightarrow> 'n res" where
  "declareVariable this varname v isConst st =
     (if variables (envs st this) varname \<noteq> None then (Throw (AlreadyDefined varname), st)
      else (Ok v, (if isConst then addConstant this varname (setVariable this varname v st)
                   else setVariable this varname v st)))"

definition assignVariable :: "nat \<Rightarrow> string \<Rightarrow> 'n rvalue \<Rightarrow> 'n heap \<Rightarrow> 'n res" where
  "assignVariable this varname v st =
     (case resolve st varname this of
        Ok env \<Rightarrow>
          if varname \<in> constants (envs st env) then (Throw (ConstReassign varname), st)
          else (Ok v, setVariable env varname v st)
      | Throw e \<Rightarrow> (Throw e, st)
      | Diverge \<Rightarrow> (Diverge, st))"

definition lookupVariable :: "nat \<Rightarrow> string \<Rightarrow> 'n heap \<Rightarrow> 'n res" where
  "lookupVariable this varname st =
     (case resolve st varname this of
        Ok env \<Rightarrow> (Ok (getVariable env varname st), st)
      | Throw e \<Rightarrow> (Throw e, st)
      | Diverge \<Rightarrow> (Diverge, st))"

section \<open>Binary operators (runtime/eval/expressions.ts)\<close>

text \<open>The host's \<open>===\<close> on field values; \<open>!==\<close> is its negation.\<close>

definition strictEquals :: "'n host \<Rightarrow> 'n field \<Rightarrow> 'n field \<Rightarrow> bool" where
  "strictEquals host a b =
     (case (a, b) of (FNum x, FNum y) \<Rightarrow> num_eq host x y | _ \<Rightarrow> a = b)"

fun asBool :: "'n rvalue \<Rightarrow> bool" where
  "asBool (BooleanVal b) = b"
| "asBool _ = False"

definition equals :: "'n host \<Rightarrow> 'n rvalue \<Rightarrow> 'n rvalue \<Rightarrow> bool \<Rightarrow> 'n rvalue outcome" where
  "equals host lhs rhs strict =
     (let compare = (if strict then (\<lambda>a b. strictEquals host a b)
                     else (\<lambda>a b. \<not> strictEquals host a b))
      in if lhs = Undefined then Throw HostTypeError
         else if rhs = Undefined then Throw HostTypeError
         else (case typeOf lhs of
                 None \<Rightarrow> Throw UnhandledType
               | Some t \<Rightarrow>
                   if t = ''boolean'' then Ok (MK_BOOL (compare (valueField lhs) (valueField rhs)))
                   else if t = ''number'' then Ok (MK_BOOL (compare (valueField lhs) (valueField rhs)))
                   else if t = ''string'' then Ok (MK_BOOL (compare (valueField lhs) (valueField rhs)))
                   else if t = ''fn'' then Ok (MK_BOOL (compare (bodyField lhs) (bodyField rhs)))
                   else if t = ''native-fn'' then Ok (MK_BOOL (compare (callField lhs) (callField rhs)))
                   else if t = ''null'' then Ok (MK_BOOL (compare (valueField lhs) (valueField rhs)))
                   else if t = ''object'' then
                     Ok (MK_BOOL (compare (propertiesField lhs) (propertiesField rhs)))
                   else if t = ''array'' then
                     Ok (MK_BOOL (compare (elementsField lhs) (elementsField rhs)))
                   else Throw UnhandledType))"

text \<open>
  \<open>lhs.type !== 'boolean' || rhs.type !== 'boolean'\<close> reads \<open>rhs.type\<close> only when
  the left test is false, so an undefined right operand raises only then.
\<close>

definition evaluateNumericBinaryExpression ::
  "'n host \<Rightarrow> 'n rvalue \<Rightarrow> 'n rvalue \<Rightarrow> string \<Rightarrow> 'n rvalue outcome" where
  "evaluateNumericBinaryExpression host lhs rhs operator =
     (if operator = ''|'' then
        (if lhs = Undefined then Throw HostTypeError
         else if typeOf lhs \<noteq> Some ''boolean'' then Ok (MK_BOOL False)
         else if rhs = Undefined then Throw HostTypeError
         else if typeOf rhs \<noteq> Some ''boolean'' then Ok (MK_BOOL False)
         else Ok (MK_BOOL (asBool lhs \<or> asBool rhs)))
      else if operator = ''&&'' then
        (if lhs = Undefined then Throw HostTypeError
         else if typeOf lhs \<noteq> Some ''boolean'' then Ok (MK_BOOL False)
         else if rhs = Undefined then Throw HostTypeError
         else if typeOf rhs \<noteq> Some ''boolean'' then Ok (MK_BOOL False)
         else Ok (MK_BOOL (asBool lhs \<and> asBool rhs)))
      else if operator = ''!='' then equals host lhs rhs False
      else if operator = ''=='' then equals host lhs rhs True
      else
        (if lhs = Undefined then Throw HostTypeError
         else if typeOf lhs \<noteq> Some ''number'' then Ok (MK_BOOL False)
         else if rhs = Undefined then Throw HostTypeError
         else if typeOf rhs \<noteq> Some ''number'' then Ok (MK_BOOL False)
         else (case (lhs, rhs) of
                 (NumberVal llhs, NumberVal rrhs) \<Rightarrow>
                   if operator = ''+'' then Ok (MK_NUMBER (num_add host llhs rrhs))
                   else if operator = ''-'' then Ok (MK_NUMBER (num_sub host llhs rrhs))
                   else if operator = ''*'' then Ok (MK_NUMBER (num_mul host llhs rrhs))
                   else if operator = ''/'' then Ok (MK_NUMBER (num_div host llhs rrhs))
                   else if operator = ''%'' then Ok (MK_NUMBER (num_rem host llhs rrhs))
                   else if operator = ''<'' then Ok (MK_BOOL (num_lt host llhs rrhs))
                   else if operator = ''>'' then Ok (MK_BOOL (num_gt host llhs rrhs))
                   else Throw UnknownOperator
               | _ \<Rightarrow> Throw UnknownOperator)))"

definition evaluateBinaryExpression ::
  "'n host \<Rightarrow> 'n ev \<Rightarrow> 'n stmt \<Rightarrow> 'n stmt \<Rightarrow> string \<Rightarrow> nat \<Rightarrow> 'n heap \<Rightarrow> 'n res" where
  "evaluateBinaryExpression host ev left right operator env st =
     andThen (ev left env st) (\<lambda>leftHandSide st1.
     andThen (ev right env st1) (\<lambda>rightHandSide st2.
       (evaluateNumericBinaryExpression host leftHandSide rightHandSide operator, st2)))"

section \<open>Expressions (runtime/eval/expressions.ts)\<close>

text \<open>
  Every function that calls \<open>evaluate\<close> takes it as the parameter \<open>ev\<close>; the
  recursion is closed in \<open>evaluate\<close> below.
\<close>

definition evaluateIdentifier :: "string \<Rightarrow> nat \<Rightarrow> 'n heap \<Rightarrow> 'n res" where
  "evaluateIdentifier symbol env st = lookupVariable env symbol st"

text \<open>The loop \<open>for (const stmt of body) result = evaluate(stmt, scope)\<close>, which
  \<open>evaluateProgram\<close>, \<open>evalBody\<close> and \<open>evaluateFunction\<close> each contain.\<close>

fun runStatements :: "'n ev \<Rightarrow> 'n stmt list \<Rightarrow> nat \<Rightarrow> 'n rvalue \<Rightarrow> 'n heap \<Rightarrow> 'n res" where
  "runStatements ev [] scope result st = (Ok result, st)"
| "runStatements ev (s # body) scope result st =
     (case ev s scope st of
        (Ok v, st1) \<Rightarrow> runStatements ev body scope v st1
      | (Throw e, st1) \<Rightarrow> (Throw e, st1)
      | (Diverge, st1) \<Rightarrow> (Diverge, st1))"

subsection \<open>Environment.lookupOrMutObject\<close>

definition mapGet :: "nat \<Rightarrow> string option \<Rightarrow> 'n heap \<Rightarrow> 'n rvalue" where
  "mapGet a k st = (case maps st a k of None \<Rightarrow> Undefined | Some v \<Rightarrow> v)"

definition mapSet :: "nat \<Rightarrow> string option \<Rightarrow> 'n rvalue \<Rightarrow> 'n heap \<Rightarrow> 'n heap" where
  "mapSet a k v st = st\<lparr>maps := (maps st)(a := (maps st a)(k \<mapsto> v))\<rparr>"

text \<open>
  \<open>elements[num]\<close>: a number that is an array index reads or writes that element (a
  write past the end extends the array, the gap reading as \<open>undefined\<close>); any other
  number is converted to a property key of the array object.
\<close>

definition arrayGet :: "'n host \<Rightarrow> nat \<Rightarrow> 'n \<Rightarrow> 'n heap \<Rightarrow> 'n rvalue" where
  "arrayGet host a num st =
     (case num_index host num of
        Some i \<Rightarrow> if i < length (elements (arrays st a)) then elements (arrays st a) ! i
                  else Undefined
      | None \<Rightarrow> (case keyed (arrays st a) (num_key host num) of
                   None \<Rightarrow> Undefined | Some v \<Rightarrow> v))"

definition arraySet :: "'n host \<Rightarrow> nat \<Rightarrow> 'n \<Rightarrow> 'n rvalue \<Rightarrow> 'n heap \<Rightarrow> 'n heap" where
  "arraySet host a num v st =
     (case num_index host num of
        Some i \<Rightarrow>
          st\<lparr>arrays := (arrays st)(a := (arrays st a)\<lparr>elements :=
                (if i < length (elements (arrays st a)) then (elements (arrays st a))[i := v]
                 else elements (arrays st a)
                      @ replicate (i - length (elements (arrays st a))) Undefined @ [v])\<rparr>)\<rparr>
      | None \<Rightarrow>
          st\<lparr>arrays := (arrays st)(a := (arrays st a)\<lparr>keyed :=
                (keyed (arrays st a))(num_key host num \<mapsto> v)\<rparr>)\<rparr>)"

text \<open>The root of a path: \<open>this.resolve(varname).variables.get(varname)\<close>, with
  \<open>varname\<close> the symbol of \<open>expr.object\<close> (undefined when it is not an Identifier;
  no scope holds that name).\<close>

definition lookupRoot :: "nat \<Rightarrow> 'n stmt \<Rightarrow> 'n heap \<Rightarrow> 'n res" where
  "lookupRoot this obj st =
     (case symbolOf obj of
        None \<Rightarrow> (Throw (CannotResolve ''undefined''), st)
      | Some varname \<Rightarrow> lookupVariable this varname st)"

text \<open>
  The \<open>switch (pastVal.type)\<close> of lookupOrMutObject. \<open>exprProperty\<close> is
  \<open>expr.property\<close>, \<open>v\<close> the optional new value (\<open>if (value)\<close> holds for every
  host value but \<open>undefined\<close>), \<open>property\<close> the optional third parameter.
  \<open>if (currentProp)\<close> fails for an undefined and for an empty symbol.
\<close>

definition accessSlot ::
  "'n host \<Rightarrow> 'n ev \<Rightarrow> nat \<Rightarrow> 'n stmt \<Rightarrow> 'n rvalue \<Rightarrow> 'n stmt option \<Rightarrow> 'n rvalue \<Rightarrow> 'n heap \<Rightarrow> 'n res" where
  "accessSlot host ev this exprProperty v property pastVal st =
     (case pastVal of
        Undefined \<Rightarrow> (Throw HostTypeError, st)
      | ObjectVal a \<Rightarrow>
          (let currentProp = symbolOf exprProperty;
               prop = (case property of Some p \<Rightarrow> symbolOf p | None \<Rightarrow> currentProp);
               st1 = (if v \<noteq> Undefined then mapSet a prop v st else st)
           in if currentProp \<noteq> None \<and> currentProp \<noteq> Some []
              then (Ok (mapGet a currentProp st1), st1)
              else (Ok pastVal, st1))
      | ArrayVal a \<Rightarrow>
          andThen (ev exprProperty this st) (\<lambda>numRT st1.
            (case numRT of
               Undefined \<Rightarrow> (Throw HostTypeError, st1)
             | NumberVal num \<Rightarrow>
                 (let st2 = (if v \<noteq> Undefined then arraySet host a num v st1 else st1)
                  in (Ok (arrayGet host a num st2), st2))
             | _ \<Rightarrow> (Throw ArraysNoKeys, st1)))
      | _ \<Rightarrow> (Throw CannotLookupOrMutate, st))"

text \<open>\<open>expr\<close> is a MemberExpression by its type; on any other node \<open>expr.object\<close> is
  undefined and reading its \<open>kind\<close> raises.\<close>

fun lookupOrMutObject ::
  "'n host \<Rightarrow> 'n ev \<Rightarrow> nat \<Rightarrow> 'n stmt \<Rightarrow> 'n rvalue \<Rightarrow> 'n stmt option \<Rightarrow> 'n heap \<Rightarrow> 'n res" where
  "lookupOrMutObject host ev this (MemberExpression obj prop computed) v property st =
     (case (case obj of
              MemberExpression obj' prop' computed' \<Rightarrow>
                lookupOrMutObject host ev this obj Undefined (Some prop') st
            | _ \<Rightarrow> lookupRoot this obj st) of
        (Ok pastVal, st1) \<Rightarrow> accessSlot host ev this prop v property pastVal st1
      | (Throw e, st1) \<Rightarrow> (Throw e, st1)
      | (Diverge, st1) \<Rightarrow> (Diverge, st1))"
| "lookupOrMutObject host ev this _ v property st = (Throw HostTypeError, st)"

subsection \<open>Member expressions, assignments, literals\<close>

text \<open>\<open>evaluateMemberExpression(env, node?, expr?)\<close>: \<open>node\<close> is the assignee and the
  value of an AssignmentExpression, \<open>expr\<close> a MemberExpression; the new value is
  evaluated before the path is resolved.\<close>

definition evaluateMemberExpression ::
  "'n host \<Rightarrow> 'n ev \<Rightarrow> nat \<Rightarrow> ('n stmt \<times> 'n stmt) option \<Rightarrow> 'n stmt option \<Rightarrow> 'n heap \<Rightarrow> 'n res" where
  "evaluateMemberExpression host ev env node expr st =
     (case expr of
        Some e \<Rightarrow> lookupOrMutObject host ev env e Undefined None st
      | None \<Rightarrow>
          (case node of
             Some (assignee, val) \<Rightarrow>
               andThen (ev val env st) (\<lambda>v st1. lookupOrMutObject host ev env assignee v None st1)
           | None \<Rightarrow> (Throw NoMemberOrAssignment, st)))"

definition evaluateAssignment ::
  "'n host \<Rightarrow> 'n ev \<Rightarrow> 'n stmt \<Rightarrow> 'n stmt \<Rightarrow> nat \<Rightarrow> 'n heap \<Rightarrow> 'n res" where
  "evaluateAssignment host ev assignee val env st =
     (case assignee of
        MemberExpression obj prop computed \<Rightarrow>
          evaluateMemberExpression host ev env (Some (assignee, val)) None st
      | Identifier varname \<Rightarrow>
          andThen (ev val env st) (\<lambda>v st1. assignVariable env varname v st1)
      | _ \<Rightarrow> (Throw InvalidLeftHandSide, st))"

definition newMap :: "'n heap \<Rightarrow> nat \<times> 'n heap" where
  "newMap st =
     (nextMap st, st\<lparr>maps := (maps st)(nextMap st := (\<lambda>k. None)), nextMap := Suc (nextMap st)\<rparr>)"

definition newArray :: "'n heap \<Rightarrow> nat \<times> 'n heap" where
  "newArray st =
     (nextArray st,
      st\<lparr>arrays := (arrays st)(nextArray st := \<lparr>elements = [], keyed = (\<lambda>k. None)\<rparr>),
         nextArray := Suc (nextArray st)\<rparr>)"

fun setProperties ::
  "'n ev \<Rightarrow> nat \<Rightarrow> (string \<times> 'n stmt option) list \<Rightarrow> nat \<Rightarrow> 'n heap \<Rightarrow> 'n res" where
  "setProperties ev a [] env st = (Ok (ObjectVal a), st)"
| "setProperties ev a ((key, val) # properties) env st =
     (case (case val of None \<Rightarrow> lookupVariable env key st | Some e \<Rightarrow> ev e env st) of
        (Ok runtimeVal, st1) \<Rightarrow> setProperties ev a properties env (mapSet a (Some key) runtimeVal st1)
      | (Throw e, st1) \<Rightarrow> (Throw e, st1)
      | (Diverge, st1) \<Rightarrow> (Diverge, st1))"

definition evaluateObjectExpression ::
  "'n ev \<Rightarrow> (string \<times> 'n stmt option) list \<Rightarrow> nat \<Rightarrow> 'n heap \<Rightarrow> 'n res" where
  "evaluateObjectExpression ev properties env st =
     (let (a, st1) = newMap st in setProperties ev a properties env st1)"

definition arrayPush :: "nat \<Rightarrow> 'n rvalue \<Rightarrow> 'n heap \<Rightarrow> 'n heap" where
  "arrayPush a v st =
     st\<lparr>arrays := (arrays st)(a := (arrays st a)\<lparr>elements := elements (arrays st a) @ [v]\<rparr>)\<rparr>"

fun pushValues :: "'n ev \<Rightarrow> nat \<Rightarrow> 'n stmt list \<Rightarrow> nat \<Rightarrow> 'n heap \<Rightarrow> 'n res" where
  "pushValues ev a [] env st = (Ok (ArrayVal a), st)"
| "pushValues ev a (val # vals) env st =
     (case ev val env st of
        (Ok runtimeVal, st1) \<Rightarrow> pushValues ev a vals env (arrayPush a runtimeVal st1)
      | (Throw e, st1) \<Rightarrow> (Throw e, st1)
      | (Diverge, st1) \<Rightarrow> (Diverge, st1))"

definition evaluateArrayExpression :: "'n ev \<Rightarrow> 'n stmt list \<Rightarrow> nat \<Rightarrow> 'n heap \<Rightarrow> 'n res" where
  "evaluateArrayExpression ev vals env st =
     (let (a, st1) = newArray st in pushValues ev a vals env st1)"

subsection \<open>Calls\<close>

text \<open>The parameter loop of \<open>evaluateFunction\<close>: \<open>args[i]\<close> is undefined past the end
  of the argument list.\<close>

fun declareParams :: "nat \<Rightarrow> string list \<Rightarrow> 'n rvalue list \<Rightarrow> 'n heap \<Rightarrow> 'n res" where
  "declareParams scope [] args st = (Ok Undefined, st)"
| "declareParams scope (varname # params) args st =
     (case declareVariable scope varname (case args of [] \<Rightarrow> Undefined | a # rest \<Rightarrow> a) False st of
        (Ok v, st1) \<Rightarrow> declareParams scope params (tl args) st1
      | (Throw e, st1) \<Rightarrow> (Throw e, st1)
      | (Diverge, st1) \<Rightarrow> (Diverge, st1))"

text \<open>\<open>evaluateFunction(func, args)\<close>, with the fields of \<open>func\<close> it reads.\<close>

definition evaluateFunction ::
  "'n ev \<Rightarrow> string list \<Rightarrow> nat \<Rightarrow> 'n stmt list \<Rightarrow> 'n rvalue list \<Rightarrow> 'n heap \<Rightarrow> 'n res" where
  "evaluateFunction ev params declarationEnv body args st =
     (let (scope, st1) = newEnvironment (Some declarationEnv) st
      in andThen (declareParams scope params args st1) (\<lambda>u st2.
           runStatements ev body scope MK_NULL st2))"

text \<open>\<open>expr.args.map((arg) => evaluate(arg, env))\<close>\<close>

fun evaluateArgs :: "'n ev \<Rightarrow> 'n stmt list \<Rightarrow> nat \<Rightarrow> 'n heap \<Rightarrow> 'n rvalue list outcome \<times> 'n heap" where
  "evaluateArgs ev [] env st = (Ok [], st)"
| "evaluateArgs ev (arg # args) env st =
     (case ev arg env st of
        (Ok v, st1) \<Rightarrow>
          (case evaluateArgs ev args env st1 of
             (Ok vs, st2) \<Rightarrow> (Ok (v # vs), st2)
           | (Throw e, st2) \<Rightarrow> (Throw e, st2)
           | (Diverge, st2) \<Rightarrow> (Diverge, st2))
      | (Throw e, st1) \<Rightarrow> (Throw e, st1)
      | (Diverge, st1) \<Rightarrow> (Diverge, st1))"

definition evalCallExpression ::
  "'n host \<Rightarrow> 'n ev \<Rightarrow> 'n stmt \<Rightarrow> 'n stmt list \<Rightarrow> nat \<Rightarrow> 'n heap \<Rightarrow> 'n res" where
  "evalCallExpression host ev callee exprArgs env st =
     andThen (evaluateArgs ev exprArgs env st) (\<lambda>args st1.
     andThen (ev callee env st1) (\<lambda>fn st2.
       (case fn of
          NativeFnVal k \<Rightarrow> native_call host k args env st2
        | FnVal name params declarationEnv bodyRef body \<Rightarrow>
            evaluateFunction ev params declarationEnv body args st2
        | _ \<Rightarrow> (Throw NotCallable, st2))))"

section \<open>Statements (runtime/eval/statements.ts)\<close>

definition evaluateProgram :: "'n ev \<Rightarrow> 'n stmt list \<Rightarrow> nat \<Rightarrow> 'n heap \<Rightarrow> 'n res" where
  "evaluateProgram ev body env st = runStatements ev body env MK_NULL st"

definition evaluateVariableDeclaration ::
  "'n ev \<Rightarrow> bool \<Rightarrow> string \<Rightarrow> 'n stmt option \<Rightarrow> nat \<Rightarrow> 'n heap \<Rightarrow> 'n res" where
  "evaluateVariableDeclaration ev constant identifier val env st =
     andThen (case val of Some e \<Rightarrow> ev e env st | None \<Rightarrow> (Ok MK_NULL, st)) (\<lambda>v st1.
       declareVariable env identifier v constant st1)"

definition evalFunctionDeclaration ::
  "string \<Rightarrow> string list \<Rightarrow> nat \<Rightarrow> 'n stmt list \<Rightarrow> nat \<Rightarrow> 'n heap \<Rightarrow> 'n res" where
  "evalFunctionDeclaration name params bodyRef body env st =
     (let fn = FnVal name params env bodyRef body
      in if name = ''<anonymous>'' then (Ok fn, st) else declareVariable env name fn True st)"

definition evalBody :: "'n ev \<Rightarrow> 'n stmt list \<Rightarrow> nat \<Rightarrow> bool \<Rightarrow> 'n heap \<Rightarrow> 'n res" where
  "evalBody ev body env newEnv st =
     (let (scope, st1) = (if newEnv then newEnvironment (Some env) st else (env, st))
      in runStatements ev body scope MK_NULL st1)"

text \<open>\<open>(test as BooleanValue).value === true\<close>; reading \<open>value\<close> on an undefined test
  raises.\<close>

definition evalIfStatement ::
  "'n ev \<Rightarrow> 'n stmt \<Rightarrow> 'n stmt list \<Rightarrow> 'n stmt list option \<Rightarrow> nat \<Rightarrow> 'n heap \<Rightarrow> 'n res" where
  "evalIfStatement ev test body alternate env st =
     andThen (ev test env st) (\<lambda>t st1.
       if t = Undefined then (Throw HostTypeError, st1)
       else if valueField t = FBool True then evalBody ev body env True st1
       else (case alternate of
               Some alt \<Rightarrow> evalBody ev alt env True st1
             | None \<Rightarrow> (Ok MK_NULL, st1)))"

text \<open>The truthiness of a field value, as \<open>while (...)\<close> tests it.\<close>

fun truthy :: "'n host \<Rightarrow> 'n field \<Rightarrow> bool" where
  "truthy host FUndefined = False"
| "truthy host FNull = False"
| "truthy host (FBool b) = b"
| "truthy host (FNum n) = num_truthy host n"
| "truthy host (FStr s) = (s \<noteq> [])"
| "truthy host (FRef a) = True"

text \<open>
  The \<open>do { ... } while ((test as BooleanValue).value)\<close> of \<open>evalForStatement\<close>; \<open>env\<close>
  is the loop scope. The first argument bounds the number of iterations: the loop of
  the source need not end, and running out is \<open>Diverge\<close>.
\<close>

primrec forLoop ::
  "nat \<Rightarrow> 'n host \<Rightarrow> 'n ev \<Rightarrow> 'n stmt \<Rightarrow> 'n stmt \<Rightarrow> 'n stmt \<Rightarrow> 'n stmt list \<Rightarrow> nat \<Rightarrow> 'n heap \<Rightarrow> 'n res" where
  "forLoop 0 host ev test assignee update body env st = (Diverge, st)"
| "forLoop (Suc k) host ev test assignee update body env st =
     (let (scope, st1) = newEnvironment (Some env) st
      in case evalBody ev body scope False st1 of
           (Ok r, st2) \<Rightarrow>
             (case evaluateAssignment host ev assignee update env st2 of
                (Ok u, st3) \<Rightarrow>
                  (case ev test env st3 of
                     (Ok t, st4) \<Rightarrow>
                       if t = Undefined then (Throw HostTypeError, st4)
                       else if truthy host (valueField t)
                         then forLoop k host ev test assignee update body env st4
                       else (Ok MK_NULL, st4)
                   | (Throw e, st4) \<Rightarrow> (Throw e, st4)
                   | (Diverge, st4) \<Rightarrow> (Diverge, st4))
              | (Throw e, st3) \<Rightarrow> (Throw e, st3)
              | (Diverge, st3) \<Rightarrow> (Diverge, st3))
         | (Throw e, st2) \<Rightarrow> (Throw e, st2)
         | (Diverge, st2) \<Rightarrow> (Diverge, st2))"

definition evalForStatement ::
  "nat \<Rightarrow> 'n host \<Rightarrow> 'n ev \<Rightarrow> bool \<Rightarrow> string \<Rightarrow> 'n stmt option \<Rightarrow> 'n stmt \<Rightarrow> 'n stmt \<Rightarrow> 'n stmt
     \<Rightarrow> 'n stmt list \<Rightarrow> nat \<Rightarrow> 'n heap \<Rightarrow> 'n res" where
  "evalForStatement fuel host ev constant identifier val test assignee update body env0 st =
     (let (env, st1) = newEnvironment (Some env0) st
      in andThen (evaluateVariableDeclaration ev constant identifier val env st1) (\<lambda>d st2.
         andThen (ev test env st2) (\<lambda>t st3.
           if t = Undefined then (Throw HostTypeError, st3)
           else if valueField t \<noteq> FBool True then (Ok MK_NULL, st3)
           else forLoop fuel host ev test assignee update body env st3)))"

text \<open>
  Both scopes are created before the body runs. \<open>catch (e)\<close> catches whatever was
  thrown (not a divergence) and hands it to \<open>env.assignVariable('error', e)\<close>; a throw
  of that assignment leaves the statement.
\<close>

definition evalTryCatchStatement ::
  "'n ev \<Rightarrow> nat \<Rightarrow> 'n stmt list \<Rightarrow> 'n stmt list \<Rightarrow> 'n heap \<Rightarrow> 'n res" where
  "evalTryCatchStatement ev env body alternate st =
     (let (try_env, st1) = newEnvironment (Some env) st;
          (catch_env, st2) = newEnvironment (Some env) st1
      in case evalBody ev body try_env False st2 of
           (Throw e, st3) \<Rightarrow>
             andThen (assignVariable env ''error'' (Caught e) st3) (\<lambda>v st4.
               evalBody ev alternate catch_env False st4)
         | r \<Rightarrow> r)"

section \<open>The interpreter (runtime/interpreter.ts)\<close>

text \<open>The \<open>switch (astNode.kind)\<close> of \<open>evaluate\<close>; \<open>ev\<close> stands for the recursive calls
  and \<open>fuel\<close> bounds the iterations of a for loop.\<close>

definition dispatch :: "'n host \<Rightarrow> nat \<Rightarrow> 'n ev \<Rightarrow> 'n ev" where
  "dispatch host fuel ev astNode env st =
     (case astNode of
        Program body \<Rightarrow> evaluateProgram ev body env st
      | NumericLiteral n \<Rightarrow> (Ok (NumberVal n), st)
      | StringLiteral s \<Rightarrow> (Ok (StringVal s), st)
      | Identifier symbol \<Rightarrow> evaluateIdentifier symbol env st
      | ObjectLiteral properties \<Rightarrow> evaluateObjectExpression ev properties env st
      | ArrayLiteral vals \<Rightarrow> evaluateArrayExpression ev vals env st
      | CallExpression callee args \<Rightarrow> evalCallExpression host ev callee args env st
      | AssignmentExpression assignee val \<Rightarrow> evaluateAssignment host ev assignee val env st
      | BinaryExpression left right operator \<Rightarrow>
          evaluateBinaryExpression host ev left right operator env st
      | IfStatement test body alternate \<Rightarrow> evalIfStatement ev test body alternate env st
      | ForStatement constant identifier val test assignee update body \<Rightarrow>
          evalForStatement fuel host ev constant identifier val test assignee update body env st
      | MemberExpression obj prop computed \<Rightarrow>
          evaluateMemberExpression host ev env None (Some astNode) st
      | TryCatchStatement body alternate \<Rightarrow> evalTryCatchStatement ev env body alternate st
      | VariableDeclaration constant identifier val \<Rightarrow>
          evaluateVariableDeclaration ev constant identifier val env st
      | FunctionDeclaration name params bodyRef body \<Rightarrow>
          evalFunctionDeclaration name params bodyRef body env st)"

text \<open>
  \<open>evaluate\<close> with a bound on the depth of nested calls of itself (and on the
  iterations of each loop): \<open>Diverge\<close> when the bound is reached. A result other
  than \<open>Diverge\<close> is the result of the source. The host's call stack is taken to be
  unbounded: unbounded recursion is \<open>Diverge\<close> at every bound, not the RangeError a
  finite stack raises.
\<close>

primrec evaluate :: "'n host \<Rightarrow> nat \<Rightarrow> 'n ev" where
  "evaluate host 0 = (\<lambda>astNode env st. (Diverge, st))"
| "evaluate host (Suc fuel) = dispatch host fuel (evaluate host fuel)"

section \<open>The lexer (frontend/lexer.ts)\<close>

text \<open>
  The source is the list of its characters (\<open>sourceCode.split('')\<close>; ASCII here). The
  members of the enum \<open>TokenType\<close> carry the suffix \<open>Tok\<close>.
\<close>

datatype TokenType =
    NumberTok | IdentifierTok | StringTok
  | LetTok | ConstTok | FnTok | IfTok | ElseTok | ForTok
  | BinaryOperatorTok | EqualsTok | CommaTok | DotTok | ColonTok | SemicolonTok
  | OpenParenTok | CloseParenTok | OpenBraceTok | CloseBraceTok | OpenBracketTok | CloseBracketTok
  | QuotationTok | GreaterTok | LesserTok | EqualsCompareTok | NotEqualsCompareTok
  | ExclamationTok | AndTok | AmpersandTok | BarTok | TernaryTok
  | EOFTok | NewLineTok

text \<open>\<open>Token text kind rawText\<close>: the fields \<open>value\<close>, \<open>type\<close> and \<open>raw\<close> of a token.\<close>

datatype Token = Token string TokenType string

fun tokenType :: "Token \<Rightarrow> TokenType" where
  "tokenType (Token text kind rawText) = kind"

definition token :: "string \<Rightarrow> TokenType \<Rightarrow> Token" where
  "token text kind = Token text kind text"

definition KEYWORDS :: "string \<Rightarrow> TokenType option" where
  "KEYWORDS = map_of
     [(''let'', LetTok), (''const'', ConstTok), (''fn'', FnTok), (''if'', IfTok),
      (''else'', ElseTok), (''for'', ForTok)]"

definition TOKEN_CHARS :: "char \<Rightarrow> TokenType option" where
  "TOKEN_CHARS = map_of
     [(CHR ''('', OpenParenTok), (CHR '')'', CloseParenTok),
      (CHR ''{'', OpenBraceTok), (CHR ''}'', CloseBraceTok),
      (CHR ''['', OpenBracketTok), (CHR '']'', CloseBracketTok),
      (CHR ''+'', BinaryOperatorTok), (CHR ''-'', BinaryOperatorTok),
      (CHR ''*'', BinaryOperatorTok), (CHR ''%'', BinaryOperatorTok),
      (CHR ''/'', BinaryOperatorTok),
      (CHR ''<'', LesserTok), (CHR ''>'', GreaterTok),
      (CHR ''.'', DotTok), (CHR '';'', SemicolonTok), (CHR '':'', ColonTok),
      (CHR '','', CommaTok), (CHR ''|'', BarTok), (CHR 0x0A, NewLineTok)]"

definition ESCAPED :: "char \<Rightarrow> char option" where
  "ESCAPED = map_of [(CHR ''n'', CHR 0x0A), (CHR ''t'', CHR 0x09), (CHR ''r'', CHR 0x0D)]"

definition isAlpha :: "char \<Rightarrow> bool \<Rightarrow> bool" where
  "isAlpha c isFirstChar =
     (if isFirstChar then c \<in> set ''ABCDEFGHIJKLMNOPQRSTUVWXYZabcdefghijklmnopqrstuvwxyz_''
      else c \<in> set ''ABCDEFGHIJKLMNOPQRSTUVWXYZabcdefghijklmnopqrstuvwxyz0123456789_'')"

definition isSkippable :: "char \<Rightarrow> bool" where
  "isSkippable c = (c = CHR '' '' \<or> c = CHR 0x0A \<or> c = CHR 0x09 \<or> c = CHR 0x0D)"

definition isInt :: "char \<Rightarrow> bool" where
  "isInt c = (c \<in> set ''0123456789'')"

text \<open>
  The loop of \<open>getPrevIdents\<close>, over the reversed token list: a token is kept when it
  is an identifier, a dot or a bracket, or a number whose predecessor in the source
  order (\<open>tokens[tokens.length - newTokens.length - 2]\<close>, the next one here) is an
  opening bracket; the loop stops at the first token that is not kept.
\<close>

fun keepPrev :: "Token list \<Rightarrow> Token list" where
  "keepPrev [] = []"
| "keepPrev (t # reversed) =
     (if tokenType t = IdentifierTok \<or> tokenType t = DotTok \<or> tokenType t = OpenBracketTok
         \<or> tokenType t = CloseBracketTok
         \<or> (case reversed of
               [] \<Rightarrow> False
             | p # earlier \<Rightarrow> tokenType p = OpenBracketTok \<and> tokenType t = NumberTok)
      then t # keepPrev reversed
      else [])"

definition getPrevIdents :: "Token list \<Rightarrow> Token list option" where
  "getPrevIdents tokens =
     (let newTokens = keepPrev (rev tokens)
      in if length newTokens > 0 then Some (rev newTokens) else None)"

text \<open>What one round of the \<open>while\<close> loop of \<open>tokenize\<close> can end in: the new token list
  and the rest of the source, a TypeError of the host, or \<open>process.exit(1)\<close>.\<close>

datatype 'a lexed = Lexed 'a | LexTypeError | LexExit

text \<open>The inner loop of a number: digits, and one period at most. It returns the
  characters taken and the rest.\<close>

fun scanNumber :: "bool \<Rightarrow> char list \<Rightarrow> char list \<times> char list" where
  "scanNumber period [] = ([], [])"
| "scanNumber period (c # src) =
     (if c = CHR ''.'' \<and> \<not> period
        then (let (num, rest) = scanNumber True src in (c # num, rest))
      else if isInt c
        then (let (num, rest) = scanNumber period src in (c # num, rest))
      else ([], c # src))"

text \<open>The loop of a string literal, after the opening quote: \<open>str\<close> and \<open>rawText\<close> so
  far; it returns both and the rest of the source.\<close>

fun scanString :: "bool \<Rightarrow> string \<Rightarrow> string \<Rightarrow> char list \<Rightarrow> string \<times> string \<times> char list" where
  "scanString escaped str rawText [] = (str, rawText, [])"
| "scanString escaped str rawText (key # src) =
     (if key = CHR 0x5C then
        (if \<not> escaped then scanString True str (rawText @ [key]) src
         else scanString False (str @ [key]) (rawText @ [key]) src)
      else if key = CHR 0x22 then
        (if \<not> escaped then (str, rawText @ [key], src)
         else scanString False (str @ [key]) (rawText @ [key]) src)
      else if escaped then
        (case ESCAPED key of
           Some e \<Rightarrow> scanString False (str @ [e]) (rawText @ [key]) src
         | None \<Rightarrow> scanString False (str @ [CHR 0x5C, key]) (rawText @ [key]) src)
      else scanString escaped (str @ [key]) (rawText @ [key]) src)"

text \<open>The loop of a block comment (it starts at the opening \<open>/\<close>), and a line comment.\<close>

fun skipBlockComment :: "char option \<Rightarrow> char list \<Rightarrow> char list" where
  "skipBlockComment lastVal [] = []"
| "skipBlockComment lastVal (nextVal # src) =
     (if lastVal = Some (CHR ''*'') \<and> nextVal = CHR ''/'' then src
      else skipBlockComment (Some nextVal) src)"

definition skipLineComment :: "char list \<Rightarrow> char list" where
  "skipLineComment src = drop 1 (dropWhile (\<lambda>c. c \<noteq> CHR 0x0A) (drop 1 src))"

text \<open>The \<open>default\<close> branch of the switch.\<close>

definition defaultCase :: "Token list \<Rightarrow> char \<Rightarrow> char list \<Rightarrow> (Token list \<times> char list) lexed" where
  "defaultCase tokens c rest =
     (case TOKEN_CHARS c of
        Some tokenKind \<Rightarrow> Lexed (tokens @ [token [c] tokenKind], rest)
      | None \<Rightarrow>
          if isAlpha c True then
            (let ident = c # takeWhile (\<lambda>d. isAlpha d False) rest;
                 src = dropWhile (\<lambda>d. isAlpha d False) rest
             in case KEYWORDS ident of
                  Some reserved \<Rightarrow> Lexed (tokens @ [token ident reserved], src)
                | None \<Rightarrow> Lexed (tokens @ [token ident IdentifierTok], src))
          else if isSkippable c then Lexed (tokens, rest)
          else LexExit)"

text \<open>\<open>src[1]\<close>, with \<open>rest\<close> the source after \<open>src[0]\<close>: undefined when there is none.\<close>

definition src1 :: "char list \<Rightarrow> char option" where
  "src1 rest = (case rest of [] \<Rightarrow> None | c1 # r \<Rightarrow> Some c1)"

text \<open>
  The branch \<open>case '*': case '/':\<close>, which the branches of \<open>-\<close> and \<open>+\<close> fall through
  to. With \<open>src[1] == '='\<close> and no previous identifiers the source breaks out of the
  switch without consuming anything.
\<close>

definition starCase :: "Token list \<Rightarrow> char \<Rightarrow> char list \<Rightarrow> (Token list \<times> char list) lexed" where
  "starCase tokens c rest =
     (if src1 rest = Some (CHR ''='') then
        (case getPrevIdents tokens of
           None \<Rightarrow> Lexed (tokens, c # rest)
         | Some prevtokens \<Rightarrow>
             Lexed (tokens @ [token ''='' EqualsTok] @ prevtokens @ [token [c] BinaryOperatorTok],
                    drop 1 rest))
      else if c = CHR ''/'' \<and> src1 rest = Some (CHR ''*'') then
        Lexed (tokens, skipBlockComment None (c # rest))
      else if c = CHR ''/'' \<and> src1 rest = Some (CHR ''/'') then
        Lexed (tokens, skipLineComment (c # rest))
      else defaultCase tokens c rest)"

text \<open>The branch \<open>case '+':\<close>, which the branch of \<open>-\<close> falls through to.\<close>

definition plusCase :: "Token list \<Rightarrow> char \<Rightarrow> char list \<Rightarrow> (Token list \<times> char list) lexed" where
  "plusCase tokens c rest =
     (if src1 rest = Some c then
        (case getPrevIdents tokens of
           Some prevtokens \<Rightarrow>
             Lexed (tokens @ [token ''='' EqualsTok] @ prevtokens
                      @ [token [c] BinaryOperatorTok, token ''1'' NumberTok],
                    drop 1 rest)
         | None \<Rightarrow> starCase tokens c rest)
      else starCase tokens c rest)"

text \<open>
  The branch \<open>case '-':\<close>. (It is reached with a second character that is not a
  digit: a \<open>-\<close> before a digit starts a number, and a \<open>-\<close> that ends the source raises
  before the switch.) \<open>tokens[tokens.length - 1].type\<close> raises on an empty token list.
\<close>

definition minusCase :: "Token list \<Rightarrow> char \<Rightarrow> char list \<Rightarrow> (Token list \<times> char list) lexed" where
  "minusCase tokens c rest =
     (if src1 rest = Some (CHR ''>'') then Lexed (tokens @ [token ''->'' TernaryTok], drop 1 rest)
      else if src1 rest \<noteq> Some c then
        (if getPrevIdents tokens = None then
           (if tokens = [] then LexTypeError
            else if tokenType (last tokens) \<noteq> CloseParenTok then
              Lexed (tokens @ [token ''0'' NumberTok, token [c] BinaryOperatorTok], rest)
            else plusCase tokens c rest)
         else plusCase tokens c rest)
      else plusCase tokens c rest)"

text \<open>One round of the \<open>while\<close> loop of \<open>tokenize\<close>, on a source that is not empty.\<close>

definition tokenizeStep :: "Token list \<Rightarrow> char \<Rightarrow> char list \<Rightarrow> (Token list \<times> char list) lexed" where
  "tokenizeStep tokens c rest =
     (if \<not> isInt c \<and> c = CHR ''-'' \<and> rest = [] then LexTypeError
      else if isInt c \<or> (c = CHR ''-'' \<and> isInt (hd rest)) then
        (let (num, src) = scanNumber False rest in Lexed (tokens @ [token (c # num) NumberTok], src))
      else if c = CHR ''='' then
        (case rest of
           c1 # r \<Rightarrow> if c1 = CHR ''='' then Lexed (tokens @ [token ''=='' EqualsCompareTok], r)
                     else Lexed (tokens @ [token ''='' EqualsTok], rest)
         | [] \<Rightarrow> Lexed (tokens @ [token ''='' EqualsTok], rest))
      else if c = CHR ''&'' then
        (case rest of
           c1 # r \<Rightarrow> if c1 = CHR ''&'' then Lexed (tokens @ [token ''&&'' AndTok], r)
                     else Lexed (tokens @ [token ''&'' AmpersandTok], rest)
         | [] \<Rightarrow> Lexed (tokens @ [token ''&'' AmpersandTok], rest))
      else if c = CHR ''!'' then
        (case rest of
           c1 # r \<Rightarrow> if c1 = CHR ''='' then Lexed (tokens @ [token ''!='' NotEqualsCompareTok], r)
                     else Lexed (tokens @ [token ''!'' ExclamationTok], rest)
         | [] \<Rightarrow> Lexed (tokens @ [token ''!'' ExclamationTok], rest))
      else if c = CHR 0x22 then
        (let (str, rawText, src) = scanString False [] [] rest
         in Lexed (tokens @ [Token str StringTok (butlast rawText)], src))
      else if c = CHR ''-'' then minusCase tokens c rest
      else if c = CHR ''+'' then plusCase tokens c rest
      else if c = CHR ''*'' \<or> c = CHR ''/'' then starCase tokens c rest
      else defaultCase tokens c rest)"

text \<open>
  The \<open>while (src.length > 0)\<close> loop. A round may consume nothing (see \<open>starCase\<close>), so
  the loop need not end: the first argument bounds the rounds, and \<open>None\<close> is the loop
  still running at the bound.
\<close>

fun tokenizeLoop :: "nat \<Rightarrow> Token list \<Rightarrow> char list \<Rightarrow> Token list lexed option" where
  "tokenizeLoop fuel tokens [] = Some (Lexed tokens)"
| "tokenizeLoop 0 tokens (c # rest) = None"
| "tokenizeLoop (Suc fuel) tokens (c # rest) =
     (case tokenizeStep tokens c rest of
        Lexed (tokens', src) \<Rightarrow> tokenizeLoop fuel tokens' src
      | LexTypeError \<Rightarrow> Some LexTypeError
      | LexExit \<Rightarrow> Some LexExit)"

definition tokenize :: "nat \<Rightarrow> string \<Rightarrow> Token list lexed option" where
  "tokenize fuel sourceCode =
     (case tokenizeLoop fuel [] sourceCode of
        Some (Lexed tokens) \<Rightarrow> Some (Lexed (tokens @ [token ''EndOfFile'' EOFTok]))
      | r \<Rightarrow> r)"

section \<open>A host and a global scope for concrete runs\<close>

text \<open>
  The theorems below hold for every host. The closed examples need one: here the
  numbers are the integers (each a double when its magnitude is below \<open>2^53\<close>),
  there are no native callbacks, and an integer denotes an array index exactly when
  it is not negative. No example performs arithmetic. Sums, differences and products
  of integers are those of the doubles while they stay below \<open>2^53\<close>; \<open>/\<close> and \<open>%\<close> are
  given as the integer quotient and remainder, which are the host's only for operands
  that are not negative, a divisor that is not zero and, for \<open>/\<close>, an exact quotient.
\<close>

fun digits :: "nat \<Rightarrow> string" where
  "digits n = (if n < 10 then [char_of (48 + n)] else digits (n div 10) @ [char_of (48 + n mod 10)])"

declare digits.simps [simp del]

definition intHost :: "int host" where
  "intHost =
     \<lparr>num_add = (\<lambda>a b. a + b),
      num_sub = (\<lambda>a b. a - b),
      num_mul = (\<lambda>a b. a * b),
      num_div = (\<lambda>a b. a div b),
      num_rem = (\<lambda>a b. a mod b),
      num_lt = (\<lambda>a b. a < b),
      num_gt = (\<lambda>a b. a > b),
      num_eq = (\<lambda>a b. a = b),
      num_truthy = (\<lambda>a. a \<noteq> 0),
      num_index = (\<lambda>a. if 0 \<le> a then Some (nat a) else None),
      num_key = (\<lambda>a. if 0 \<le> a then digits (nat a) else CHR ''-'' # digits (nat (- a))),
      native_call = (\<lambda>k args env st. (Throw (NativeFailure ''no native function''), st))\<rparr>"

definition emptyHeap :: "'n heap" where
  "emptyHeap =
     \<lparr>envs = (\<lambda>a. \<lparr>parent = None, variables = (\<lambda>k. None), constants = {}\<rparr>),
      nextEnv = 0,
      maps = (\<lambda>a k. None),
      nextMap = 0,
      arrays = (\<lambda>a. \<lparr>elements = [], keyed = (\<lambda>k. None)\<rparr>),
      nextArray = 0\<rparr>"

text \<open>
  The first declarations of \<open>createGlobalEnvironment\<close>: the constants \<open>true\<close>, \<open>false\<close>
  and \<open>null\<close> and the variable \<open>error\<close>, in a scope without parent (address 0). The
  constant \<open>args\<close> and the native functions it declares after them are left out.
\<close>

definition createGlobalEnvironment :: "'n heap" where
  "createGlobalEnvironment =
     (let (env, st0) = newEnvironment None emptyHeap;
          st1 = snd (declareVariable env ''true'' (MK_BOOL True) True st0);
          st2 = snd (declareVariable env ''false'' (MK_BOOL False) True st1);
          st3 = snd (declareVariable env ''null'' MK_NULL True st2)
      in snd (declareVariable env ''error'' MK_NULL False st3))"

section \<open>Definitions used to state the properties\<close>

text \<open>
  A CallExpression as the specification words it (section 4.4: "evaluate callee, then
  each argument left-to-right"): the callee first. It differs from
  \<open>evalCallExpression\<close> in that order only, and is compared with it below.
\<close>

definition specCallExpression ::
  "'n host \<Rightarrow> 'n ev \<Rightarrow> 'n stmt \<Rightarrow> 'n stmt list \<Rightarrow> nat \<Rightarrow> 'n heap \<Rightarrow> 'n res" where
  "specCallExpression host ev callee exprArgs env st =
     andThen (ev callee env st) (\<lambda>fn st1.
     andThen (evaluateArgs ev exprArgs env st1) (\<lambda>args st2.
       (case fn of
          NativeFnVal k \<Rightarrow> native_call host k args env st2
        | FnVal name params declarationEnv bodyRef body \<Rightarrow>
            evaluateFunction ev params declarationEnv body args st2
        | _ \<Rightarrow> (Throw NotCallable, st2))))"

text \<open>The bindings the parameter loop of \<open>evaluateFunction\<close> adds to a scope.\<close>

fun bindParams :: "(string \<Rightarrow> 'n rvalue option) \<Rightarrow> string list \<Rightarrow> 'n rvalue list \<Rightarrow> string \<Rightarrow> 'n rvalue option" where
  "bindParams vars [] args = vars"
| "bindParams vars (p # params) args =
     bindParams (vars(p \<mapsto> (case args of [] \<Rightarrow> Undefined | a # rest \<Rightarrow> a))) params (tl args)"

definition setVariables :: "nat \<Rightarrow> (string \<Rightarrow> 'n rvalue option) \<Rightarrow> 'n heap \<Rightarrow> 'n heap" where
  "setVariables scope vars st = st\<lparr>envs := (envs st)(scope := (envs st scope)\<lparr>variables := vars\<rparr>)\<rparr>"

text \<open>The first step of \<open>lookupOrMutObject\<close>: the value \<open>pastVal\<close> of \<open>expr.object\<close>, the
  container the access is made in.\<close>

definition containerOf :: "'n host \<Rightarrow> 'n ev \<Rightarrow> nat \<Rightarrow> 'n stmt \<Rightarrow> 'n heap \<Rightarrow> 'n res" where
  "containerOf host ev this obj st =
     (case obj of
        MemberExpression obj' prop' computed' \<Rightarrow>
          lookupOrMutObject host ev this obj Undefined (Some prop') st
      | _ \<Rightarrow> lookupRoot this obj st)"


text \<open>
  One round of the do-while loop of \<open>evalForStatement\<close>: the body in a new child scope
  of the loop scope, the update as an assignment in the loop scope, then the test again.
  The result is the value of that test.
\<close>

definition forRound ::
  "'n host \<Rightarrow> 'n ev \<Rightarrow> 'n stmt \<Rightarrow> 'n stmt \<Rightarrow> 'n stmt \<Rightarrow> 'n stmt list \<Rightarrow> nat \<Rightarrow> 'n heap \<Rightarrow> 'n res" where
  "forRound host ev test assignee update body env st =
     (let (scope, st1) = newEnvironment (Some env) st
      in andThen (evalBody ev body scope False st1) (\<lambda>r st2.
         andThen (evaluateAssignment host ev assignee update env st2) (\<lambda>u st3.
           ev test env st3)))"

text \<open>The store after \<open>n\<close> rounds.\<close>

primrec afterRounds ::
  "nat \<Rightarrow> 'n host \<Rightarrow> 'n ev \<Rightarrow> 'n stmt \<Rightarrow> 'n stmt \<Rightarrow> 'n stmt \<Rightarrow> 'n stmt list \<Rightarrow> nat \<Rightarrow> 'n heap \<Rightarrow> 'n heap" where
  "afterRounds 0 host ev test assignee update body env st = st"
| "afterRounds (Suc n) host ev test assignee update body env st =
     afterRounds n host ev test assignee update body env
       (snd (forRound host ev test assignee update body env st))"

text \<open>
  A round after which the loop goes on (its test has a truthy value field), and a
  round after which it ends (the value field is falsy); in both the round returns and
  its test is not the host's \<open>undefined\<close>.
\<close>

definition roundRepeats ::
  "'n host \<Rightarrow> 'n ev \<Rightarrow> 'n stmt \<Rightarrow> 'n stmt \<Rightarrow> 'n stmt \<Rightarrow> 'n stmt list \<Rightarrow> nat \<Rightarrow> 'n heap \<Rightarrow> bool" where
  "roundRepeats host ev test assignee update body env st =
     (case fst (forRound host ev test assignee update body env st) of
        Ok t \<Rightarrow> t \<noteq> Undefined \<and> truthy host (valueField t)
      | _ \<Rightarrow> False)"

definition roundEnds ::
  "'n host \<Rightarrow> 'n ev \<Rightarrow> 'n stmt \<Rightarrow> 'n stmt \<Rightarrow> 'n stmt \<Rightarrow> 'n stmt list \<Rightarrow> nat \<Rightarrow> 'n heap \<Rightarrow> bool" where
  "roundEnds host ev test assignee update body env st =
     (case fst (forRound host ev test assignee update body env st) of
        Ok t \<Rightarrow> t \<noteq> Undefined \<and> \<not> truthy host (valueField t)
      | _ \<Rightarrow> False)"
section \<open>Programs for the concrete runs\<close>

text \<open>The global scope after \<open>const xs = ["e"]\<close>.\<close>

definition arrayScope :: "int heap" where
  "arrayScope =
     snd (evaluate intHost 3 (VariableDeclaration True ''xs'' (Some (ArrayLiteral [StringLiteral ''e''])))
            0 createGlobalEnvironment)"

text \<open>
  \<open>let t = true; let k;\<close> and then \<open>for (let i; t; t = false) { k = "ran" "last" }\<close>:
  one iteration, whose last body statement has the value "last".
\<close>

definition oneRoundSetup :: "int stmt" where
  "oneRoundSetup = Program
     [VariableDeclaration False ''t'' (Some (Identifier ''true'')),
      VariableDeclaration False ''k'' None]"

definition oneRoundLoop :: "int stmt" where
  "oneRoundLoop =
     ForStatement False ''i'' None (Identifier ''t'') (Identifier ''t'') (Identifier ''false'')
       [AssignmentExpression (Identifier ''k'') (StringLiteral ''ran''), StringLiteral ''last'']"

text \<open>
  \<open>let t = true; let q = "go"; let s; let seen;\<close> and then
  \<open>for (let i; t; t = s) { seen = t s = q q = false }\<close>: the test is \<open>true\<close> at
  the start, the string "go" after the first iteration and \<open>false\<close> after the
  second; \<open>seen\<close> records the test value each iteration started with.
\<close>

definition truthyLoopSetup :: "int stmt" where
  "truthyLoopSetup = Program
     [VariableDeclaration False ''t'' (Some (Identifier ''true'')),
      VariableDeclaration False ''q'' (Some (StringLiteral ''go'')),
      VariableDeclaration False ''s'' None,
      VariableDeclaration False ''seen'' None]"

definition truthyLoop :: "int stmt" where
  "truthyLoop =
     ForStatement False ''i'' None (Identifier ''t'') (Identifier ''t'') (Identifier ''s'')
       [AssignmentExpression (Identifier ''seen'') (Identifier ''t''),
        AssignmentExpression (Identifier ''s'') (Identifier ''q''),
        AssignmentExpression (Identifier ''q'') (Identifier ''false'')]"

text \<open>The global scope after \<open>fn g() { "G" }  let f = null;\<close>.\<close>

definition callSetup :: "int stmt" where
  "callSetup = Program
     [FunctionDeclaration ''g'' [] 0 [StringLiteral ''G''],
      VariableDeclaration False ''f'' (Some (Identifier ''null''))]"

definition callScope :: "int heap" where
  "callScope = snd (evaluate intHost 3 callSetup 0 createGlobalEnvironment)"

text \<open>The global scope after \<open>fn f(a) { a == null }  fn h(a, b) { b }\<close>.\<close>

definition paramSetup :: "int stmt" where
  "paramSetup = Program
     [FunctionDeclaration ''f'' [''a''] 0 [BinaryExpression (Identifier ''a'') (Identifier ''null'') ''==''],
      FunctionDeclaration ''h'' [''a'', ''b''] 1 [Identifier ''b'']]"

definition paramScope :: "int heap" where
  "paramScope = snd (evaluate intHost 3 paramSetup 0 createGlobalEnvironment)"

text \<open>The global scope and, at address 1, an empty child scope of it (a block).\<close>

definition blockScope :: "int heap" where
  "blockScope = snd (newEnvironment (Some 0) createGlobalEnvironment)"

text \<open>The global scope after \<open>const o = {"x": "vx", "k": "vk"}; let k = "x";\<close>\<close>

definition keyedSetup :: "int stmt" where
  "keyedSetup = Program
     [VariableDeclaration True ''o''
        (Some (ObjectLiteral [(''x'', Some (StringLiteral ''vx'')), (''k'', Some (StringLiteral ''vk''))])),
      VariableDeclaration False ''k'' (Some (StringLiteral ''x''))]"

definition keyedScope :: "int heap" where
  "keyedScope = snd (evaluate intHost 4 keyedSetup 0 createGlobalEnvironment)"

text \<open>The global scope after \<open>const a = {"x": 1}; let b = a;\<close>\<close>

definition aliasSetup :: "int stmt" where
  "aliasSetup = Program
     [VariableDeclaration True ''a'' (Some (ObjectLiteral [(''x'', Some (NumericLiteral 1))])),
      VariableDeclaration False ''b'' (Some (Identifier ''a''))]"

definition aliasScope :: "int heap" where
  "aliasScope = snd (evaluate intHost 4 aliasSetup 0 createGlobalEnvironment)"

section \<open>Properties of the evaluator\<close>

subsection \<open>Auxiliary facts\<close>

lemma evaluate_Suc:
  "evaluate host (Suc fuel) astNode env st = dispatch host fuel (evaluate host fuel) astNode env st"
  by simp

lemma isRuntimeValue_not_Undefined: "isRuntimeValue v \<Longrightarrow> v \<noteq> Undefined"
  by (auto simp: isRuntimeValue_def)

lemma equals_runtime:
  assumes "isRuntimeValue a" and "b \<noteq> Undefined"
  shows "\<exists>p. equals host a b True = Ok (BooleanVal p) \<and> equals host a b False = Ok (BooleanVal (\<not> p))"
  using assms by (cases a) (simp_all add: equals_def isRuntimeValue_def MK_BOOL_def)

lemma binary_mismatch_logical:
  assumes "isRuntimeValue lhs" and "isRuntimeValue rhs"
      and "operator = ''&&'' \<or> operator = ''|''"
      and "typeOf lhs \<noteq> Some ''boolean'' \<or> typeOf rhs \<noteq> Some ''boolean''"
  shows "evaluateNumericBinaryExpression host lhs rhs operator = Ok (BooleanVal False)"
proof -
  have u: "lhs \<noteq> Undefined" "rhs \<noteq> Undefined"
    using assms(1,2) by (auto dest: isRuntimeValue_not_Undefined)
  from assms(3) show ?thesis
  proof
    assume "operator = ''&&''"
    with u assms(4) show ?thesis
      by (simp add: evaluateNumericBinaryExpression_def MK_BOOL_def)
  next
    assume "operator = ''|''"
    with u assms(4) show ?thesis
      by (simp add: evaluateNumericBinaryExpression_def MK_BOOL_def)
  qed
qed

lemma binary_mismatch_default:
  assumes "lhs \<noteq> Undefined" and "rhs \<noteq> Undefined"
      and "operator \<noteq> ''|''" "operator \<noteq> ''&&''" "operator \<noteq> ''!=''" "operator \<noteq> ''==''"
      and "typeOf lhs \<noteq> Some ''number'' \<or> typeOf rhs \<noteq> Some ''number''"
  shows "evaluateNumericBinaryExpression host lhs rhs operator = Ok (BooleanVal False)"
  using assms by (simp add: evaluateNumericBinaryExpression_def MK_BOOL_def)

lemma binary_mismatch_numeric:
  assumes "isRuntimeValue lhs" and "isRuntimeValue rhs"
      and "operator \<in> {''+'', ''-'', ''*'', ''/'', ''%'', ''<'', ''>''}"
      and "typeOf lhs \<noteq> Some ''number'' \<or> typeOf rhs \<noteq> Some ''number''"
  shows "evaluateNumericBinaryExpression host lhs rhs operator = Ok (BooleanVal False)"
proof -
  have u: "lhs \<noteq> Undefined" "rhs \<noteq> Undefined"
    using assms(1,2) by (auto dest: isRuntimeValue_not_Undefined)
  have "operator \<noteq> ''|'' \<and> operator \<noteq> ''&&'' \<and> operator \<noteq> ''!='' \<and> operator \<noteq> ''==''"
    using assms(3) by auto
  with u assms(4) show ?thesis by (simp add: binary_mismatch_default)
qed

lemma call_not_callable:
  assumes "evaluateArgs ev args env st = (Ok vs, sa)" and "ev callee env sa = (Ok fn, sb)"
      and "typeOf fn \<noteq> Some ''fn''" and "typeOf fn \<noteq> Some ''native-fn''"
  shows "evalCallExpression host ev callee args env st = (Throw NotCallable, sb)"
  using assms by (cases fn) (simp_all add: evalCallExpression_def andThen_def)

lemma array_index_not_number:
  assumes "ev prop this st = (Ok idx, st1)" and "typeOf idx \<noteq> Some ''number''"
  shows "\<exists>e. accessSlot host ev this prop v property (ArrayVal a) st = (Throw e, st1)"
  using assms by (cases idx) (simp_all add: accessSlot_def andThen_def)

lemma lookupVariable_store: "lookupVariable env x st = (r, st') \<Longrightarrow> st' = st"
  by (auto simp: lookupVariable_def split: outcome.splits)

lemma fst_newEnvironment: "fst (newEnvironment p st) = nextEnv st"
  by (simp add: newEnvironment_def)

lemma newEnvironment_fresh:
  "envs (snd (newEnvironment p st)) (nextEnv st) = \<lparr>parent = p, variables = (\<lambda>k. None), constants = {}\<rparr>"
  by (simp add: newEnvironment_def)

lemma valueField_true: "valueField t = FBool True \<longleftrightarrow> t = BooleanVal True"
  by (cases t) auto

lemma forLoop_null:
  "forLoop k host ev test assignee update body env st = (Ok r, st') \<Longrightarrow> r = NullVal"
proof (induction k arbitrary: st)
  case 0
  then show ?case by simp
next
  case (Suc k)
  then show ?case
    by (auto simp: MK_NULL_def Let_def split: prod.splits outcome.splits if_splits)
qed

lemma evaluateArgs_append:
  "evaluateArgs ev (xs @ ys) env st =
     (case evaluateArgs ev xs env st of
        (Ok vs, st1) \<Rightarrow>
          (case evaluateArgs ev ys env st1 of
             (Ok ws, st2) \<Rightarrow> (Ok (vs @ ws), st2)
           | (Throw e, st2) \<Rightarrow> (Throw e, st2)
           | (Diverge, st2) \<Rightarrow> (Diverge, st2))
      | (Throw e, st1) \<Rightarrow> (Throw e, st1)
      | (Diverge, st1) \<Rightarrow> (Diverge, st1))"
  by (induction xs arbitrary: st) (auto split: prod.splits outcome.splits)

lemma bindParams_other: "x \<notin> set params \<Longrightarrow> bindParams vars params args x = vars x"
  by (induction params arbitrary: vars args) auto

lemma bindParams_nth:
  "distinct params \<Longrightarrow> i < length params \<Longrightarrow>
   bindParams vars params args (params ! i) = Some (if i < length args then args ! i else Undefined)"
proof (induction params arbitrary: vars args i)
  case Nil
  then show ?case by simp
next
  case (Cons p params)
  show ?case
  proof (cases i)
    case 0
    with Cons.prems show ?thesis by (cases args) (simp_all add: bindParams_other)
  next
    case (Suc j)
    with Cons.prems have "j < length params" "distinct params" by simp_all
    from Cons.IH [OF this(2) this(1)] Suc show ?thesis by (cases args) simp_all
  qed
qed

lemma setVariable_setVariables:
  "setVariable scope p v st = setVariables scope ((variables (envs st scope))(p \<mapsto> v)) st"
  by (simp add: setVariable_def setVariables_def)

lemma setVariables_twice: "setVariables scope f (setVariables scope g st) = setVariables scope f st"
  by (simp add: setVariables_def)

lemma variables_setVariables: "variables (envs (setVariables scope f st) scope) = f"
  by (simp add: setVariables_def)

lemma declareParams_bind:
  assumes "distinct params" and "\<forall>p \<in> set params. variables (envs st scope) p = None"
  shows "declareParams scope params args st =
           (Ok Undefined, setVariables scope (bindParams (variables (envs st scope)) params args) st)"
  using assms
proof (induction params arbitrary: st args)
  case Nil
  then show ?case by (simp add: setVariables_def)
next
  case (Cons p params)
  let ?v = "case args of [] \<Rightarrow> Undefined | a # rest \<Rightarrow> a"
  let ?vars = "(variables (envs st scope))(p \<mapsto> ?v)"
  let ?st1 = "setVariables scope ?vars st"
  have d: "declareVariable scope p ?v False st = (Ok ?v, ?st1)"
    using Cons.prems(2) by (simp add: declareVariable_def setVariable_setVariables)
  have fresh: "\<forall>q \<in> set params. variables (envs ?st1 scope) q = None"
    using Cons.prems by (auto simp: variables_setVariables)
  have "distinct params" using Cons.prems(1) by simp
  from Cons.IH [OF this fresh, of "tl args"]
  have "declareParams scope params (tl args) ?st1
        = (Ok Undefined, setVariables scope (bindParams ?vars params (tl args)) st)"
    by (simp only: variables_setVariables setVariables_twice)
  with d show ?case by simp
qed

lemma resolve_here: "variables (envs st this) varname = Some v \<Longrightarrow> resolve st varname this = Ok this"
  by (subst resolve.simps) simp

lemma run_identifier:
  assumes "variables (envs st scope) x = Some v"
  shows "runStatements (evaluate host (Suc fuel)) [Identifier x] scope r st = (Ok v, st)"
  using assms
  by (simp add: dispatch_def evaluateIdentifier_def lookupVariable_def resolve_here getVariable_def)

lemma resolve_found:
  "resolve st varname this = Ok target \<Longrightarrow> variables (envs st target) varname \<noteq> None"
proof (induction st varname this rule: resolve.induct)
  case (1 st varname this)
  show ?case
  proof (cases "variables (envs st this) varname \<noteq> None")
    case True
    with "1.prems" show ?thesis by (subst (asm) resolve.simps) simp
  next
    case False
    with "1.prems" obtain p where p: "parent (envs st this) = Some p" "p < this"
      and r: "resolve st varname p = Ok target"
      by (subst (asm) resolve.simps) (auto split: option.splits if_splits)
    from "1.IH" [OF False p r] show ?thesis .
  qed
qed

lemma nextEnv_newEnvironment: "nextEnv (snd (newEnvironment p st)) = Suc (nextEnv st)"
  by (simp add: newEnvironment_def)

lemma evalBody_same_scope:
  "evalBody ev body scope False = runStatements ev body scope NullVal"
  by (rule ext) (simp add: evalBody_def MK_NULL_def)

lemma evalTryCatchStatement_cases:
  assumes "runStatements ev body (nextEnv st) NullVal
             (snd (newEnvironment (Some env) (snd (newEnvironment (Some env) st)))) = (r, st3)"
  shows "evalTryCatchStatement ev env body alternate st =
           (case r of
              Throw e \<Rightarrow>
                andThen (assignVariable env ''error'' (Caught e) st3) (\<lambda>v st4.
                  runStatements ev alternate (Suc (nextEnv st)) NullVal st4)
            | Ok v \<Rightarrow> (Ok v, st3)
            | Diverge \<Rightarrow> (Diverge, st3))"
  using assms
  by (cases r)
     (simp_all add: evalTryCatchStatement_def split_def fst_newEnvironment nextEnv_newEnvironment
        evalBody_same_scope)

lemma lookupOrMutObject_container:
  "lookupOrMutObject host ev this (MemberExpression obj prop computed) v property st =
     (case containerOf host ev this obj st of
        (Ok pastVal, st1) \<Rightarrow> accessSlot host ev this prop v property pastVal st1
      | (Throw e, st1) \<Rightarrow> (Throw e, st1)
      | (Diverge, st1) \<Rightarrow> (Diverge, st1))"
  by (simp add: containerOf_def)

lemma mapGet_mapSet: "mapGet a k (mapSet a k v st) = v"
  by (simp add: mapGet_def mapSet_def)

lemma mapGet_mapSet_other: "a' \<noteq> a \<or> k' \<noteq> k \<Longrightarrow> mapGet a' k' (mapSet a k v st) = mapGet a' k' st"
  by (auto simp: mapGet_def mapSet_def)

lemma arrayGet_arraySet: "arrayGet host a n (arraySet host a n v st) = v"
  by (auto simp: arrayGet_def arraySet_def nth_append split: option.splits)

lemma envs_mapSet: "envs (mapSet a k v st) = envs st"
  by (simp add: mapSet_def)

lemma envs_arraySet: "envs (arraySet host a n v st) = envs st"
  by (simp add: arraySet_def split: option.splits)

lemma accessSlot_object:
  assumes "symbolOf prop = Some key" and "key \<noteq> []"
  shows "accessSlot host ev this prop v None (ObjectVal a) st =
           (if v = Undefined then (Ok (mapGet a (Some key) st), st)
            else (Ok v, mapSet a (Some key) v st))"
  using assms by (simp add: accessSlot_def Let_def mapGet_mapSet)

lemma accessSlot_array:
  assumes "ev prop this st = (Ok (NumberVal n), st1)"
  shows "accessSlot host ev this prop v property (ArrayVal a) st =
           (if v = Undefined then (Ok (arrayGet host a n st1), st1)
            else (Ok v, arraySet host a n v st1))"
  using assms by (simp add: accessSlot_def andThen_def Let_def arrayGet_arraySet)

lemma containerOf_identifier:
  "containerOf host ev this (Identifier x) st = lookupVariable this x st"
  by (simp add: containerOf_def lookupRoot_def)

lemma lookupVariable_pair:
  "fst (lookupVariable this x st) = r \<Longrightarrow> lookupVariable this x st = (r, st)"
  by (metis lookupVariable_store prod.collapse)


lemma forLoop_round:
  "forLoop (Suc k) host ev test assignee update body env st =
     (case forRound host ev test assignee update body env st of
        (Ok t, st4) \<Rightarrow>
          if t = Undefined then (Throw HostTypeError, st4)
          else if truthy host (valueField t)
            then forLoop k host ev test assignee update body env st4
          else (Ok NullVal, st4)
      | (Throw e, st4) \<Rightarrow> (Throw e, st4)
      | (Diverge, st4) \<Rightarrow> (Diverge, st4))"
  by (simp add: forRound_def andThen_def MK_NULL_def Let_def split: prod.splits outcome.splits)

lemma forLoop_rounds:
  "\<forall>i<n. roundRepeats host ev test assignee update body env
            (afterRounds i host ev test assignee update body env st) \<Longrightarrow>
   roundEnds host ev test assignee update body env
     (afterRounds n host ev test assignee update body env st) \<Longrightarrow>
   n < k \<Longrightarrow>
   forLoop k host ev test assignee update body env st =
     (Ok NullVal, snd (forRound host ev test assignee update body env
                         (afterRounds n host ev test assignee update body env st)))"
proof (induction n arbitrary: k st)
  case 0
  then obtain k' where k: "k = Suc k'" by (cases k) auto
  from 0(2) show ?case unfolding k forLoop_round
    by (auto simp: roundEnds_def split: prod.splits outcome.splits)
next
  case (Suc n)
  then obtain k' where k: "k = Suc k'" and nk: "n < k'" by (cases k) auto
  let ?st = "snd (forRound host ev test assignee update body env st)"
  from Suc.prems(1) have r0: "roundRepeats host ev test assignee update body env st"
    by (metis afterRounds.simps(1) zero_less_Suc)
  have rest: "\<forall>i<n. roundRepeats host ev test assignee update body env
            (afterRounds i host ev test assignee update body env ?st)"
  proof (intro allI impI)
    fix i assume "i < n"
    then have "Suc i < Suc n" by simp
    with Suc.prems(1) show "roundRepeats host ev test assignee update body env
            (afterRounds i host ev test assignee update body env ?st)"
      by (metis afterRounds.simps(2))
  qed
  from Suc.prems(2) have e: "roundEnds host ev test assignee update body env
     (afterRounds n host ev test assignee update body env ?st)" by simp
  have "forLoop k' host ev test assignee update body env ?st =
     (Ok NullVal, snd (forRound host ev test assignee update body env
                         (afterRounds n host ev test assignee update body env ?st)))"
    using rest e nk by (rule Suc.IH)
  with r0 show ?case unfolding k forLoop_round
    by (auto simp: roundRepeats_def split: prod.splits outcome.splits)
qed

lemma evaluate_for:
  "evaluate host (Suc fuel) (ForStatement constant identifier val test assignee update body) env st =
     andThen (evaluateVariableDeclaration (evaluate host fuel) constant identifier val (nextEnv st)
                (snd (newEnvironment (Some env) st))) (\<lambda>d st2.
       andThen (evaluate host fuel test (nextEnv st) st2) (\<lambda>t st3.
         if t = Undefined then (Throw HostTypeError, st3)
         else if t \<noteq> BooleanVal True then (Ok NullVal, st3)
         else forLoop fuel host (evaluate host fuel) test assignee update body (nextEnv st) st3))"
  by (simp add: dispatch_def evalForStatement_def split_def Let_def fst_newEnvironment valueField_true MK_NULL_def cong: if_cong)

lemma fst_pair: "fst p = a \<Longrightarrow> p = (a, snd p)"
  by (metis prod.collapse)

lemma less_one_all: "P 0 \<Longrightarrow> \<forall>i<Suc 0. P i"
  by simp

subsection \<open>Equality operators\<close>

text \<open>
  C9. For runtime values \<open>a\<close> and \<open>b\<close>, \<open>a != b\<close> yields the boolean negation of what
  \<open>a == b\<close> yields: both return a boolean, and the two booleans are opposite.
\<close>

theorem C9_not_equals_negates_equals:
  assumes "isRuntimeValue a" and "isRuntimeValue b"
  shows "\<exists>p. evaluateNumericBinaryExpression host a b ''=='' = Ok (BooleanVal p)
           \<and> evaluateNumericBinaryExpression host a b ''!='' = Ok (BooleanVal (\<not> p))"
proof -
  have "b \<noteq> Undefined" using assms(2) by (rule isRuntimeValue_not_Undefined)
  with assms(1) obtain p where
    "equals host a b True = Ok (BooleanVal p)" "equals host a b False = Ok (BooleanVal (\<not> p))"
    using equals_runtime by blast
  then show ?thesis by (simp add: evaluateNumericBinaryExpression_def)
qed

text \<open>At the number 1 and the string "1": \<open>==\<close> is false (no coercion) and \<open>!=\<close> is
  true.\<close>

theorem C9_not_equals_negates_equals_witness:
  "isRuntimeValue (NumberVal (1::int)) \<and> isRuntimeValue (StringVal ''1'' :: int rvalue)
   \<and> evaluateNumericBinaryExpression intHost (NumberVal 1) (StringVal ''1'') ''=='' = Ok (BooleanVal False)
   \<and> evaluateNumericBinaryExpression intHost (NumberVal 1) (StringVal ''1'') ''!='' = Ok (BooleanVal True)"
proof -
  have a: "isRuntimeValue (NumberVal (1::int))" by (simp add: isRuntimeValue_def)
  have b: "isRuntimeValue (StringVal ''1'' :: int rvalue)" by (simp add: isRuntimeValue_def)
  from C9_not_equals_negates_equals [OF a b, of intHost] obtain p where
    p: "evaluateNumericBinaryExpression intHost (NumberVal 1) (StringVal ''1'') ''=='' = Ok (BooleanVal p)"
       "evaluateNumericBinaryExpression intHost (NumberVal 1) (StringVal ''1'') ''!='' = Ok (BooleanVal (\<not> p))"
    by blast
  have "evaluateNumericBinaryExpression intHost (NumberVal 1) (StringVal ''1'') ''=='' = Ok (BooleanVal False)"
    by (simp add: evaluateNumericBinaryExpression_def equals_def strictEquals_def MK_BOOL_def)
  with p have "\<not> p" by simp
  with p a b show ?thesis by simp
qed

subsection \<open>Operand type mismatches\<close>

text \<open>
  C8. When both operands of a BinaryExpression evaluate to runtime values, \<open>&&\<close> and
  \<open>|\<close> with an operand that is not a boolean, and \<open>+ - * / % < >\<close> with an operand
  that is not a number, yield the boolean false and raise nothing. In contrast, calling
  a value that is neither a function nor a native function raises, and so does indexing
  an array with a value that is not a number.
\<close>

theorem C8_operand_type_mismatch_yields_false:
  assumes "evaluate host fuel left env st = (Ok lhs, st1)"
      and "evaluate host fuel right env st1 = (Ok rhs, st2)"
      and "isRuntimeValue lhs" and "isRuntimeValue rhs"
  shows "((operator = ''&&'' \<or> operator = ''|'')
            \<and> (typeOf lhs \<noteq> Some ''boolean'' \<or> typeOf rhs \<noteq> Some ''boolean'')
          \<longrightarrow> evaluate host (Suc fuel) (BinaryExpression left right operator) env st
                = (Ok (BooleanVal False), st2))
       \<and> (operator \<in> {''+'', ''-'', ''*'', ''/'', ''%'', ''<'', ''>''}
            \<and> (typeOf lhs \<noteq> Some ''number'' \<or> typeOf rhs \<noteq> Some ''number'')
          \<longrightarrow> evaluate host (Suc fuel) (BinaryExpression left right operator) env st
                = (Ok (BooleanVal False), st2))
       \<and> (typeOf lhs \<noteq> Some ''fn'' \<and> typeOf lhs \<noteq> Some ''native-fn''
          \<longrightarrow> evaluate host (Suc fuel) (CallExpression left []) env st = (Throw NotCallable, st1))
       \<and> (typeOf lhs \<noteq> Some ''number'' \<and> lookupVariable env x st = (Ok (ArrayVal a), st)
          \<longrightarrow> (\<exists>e. evaluate host (Suc fuel) (MemberExpression (Identifier x) left True) env st
                     = (Throw e, st1)))"
proof -
  let ?ev = "evaluate host fuel"
  have eb: "evaluate host (Suc fuel) (BinaryExpression left right operator) env st
            = (evaluateNumericBinaryExpression host lhs rhs operator, st2)"
    using assms(1,2) by (simp add: dispatch_def evaluateBinaryExpression_def andThen_def)
  have c1: "(operator = ''&&'' \<or> operator = ''|'')
            \<and> (typeOf lhs \<noteq> Some ''boolean'' \<or> typeOf rhs \<noteq> Some ''boolean'')
          \<longrightarrow> evaluate host (Suc fuel) (BinaryExpression left right operator) env st
                = (Ok (BooleanVal False), st2)"
    using binary_mismatch_logical [OF assms(3,4)] eb by simp
  have c2: "operator \<in> {''+'', ''-'', ''*'', ''/'', ''%'', ''<'', ''>''}
            \<and> (typeOf lhs \<noteq> Some ''number'' \<or> typeOf rhs \<noteq> Some ''number'')
          \<longrightarrow> evaluate host (Suc fuel) (BinaryExpression left right operator) env st
                = (Ok (BooleanVal False), st2)"
    using binary_mismatch_numeric [OF assms(3,4)] eb by simp
  have ea: "evaluateArgs ?ev [] env st = (Ok [], st)" by simp
  have c3: "typeOf lhs \<noteq> Some ''fn'' \<and> typeOf lhs \<noteq> Some ''native-fn''
          \<longrightarrow> evaluate host (Suc fuel) (CallExpression left []) env st = (Throw NotCallable, st1)"
    using call_not_callable [of ?ev "[]" env st "[]" st left lhs st1 host] assms(1)
    by (simp add: dispatch_def)
  have c4: "typeOf lhs \<noteq> Some ''number'' \<and> lookupVariable env x st = (Ok (ArrayVal a), st)
          \<longrightarrow> (\<exists>e. evaluate host (Suc fuel) (MemberExpression (Identifier x) left True) env st
                     = (Throw e, st1))"
  proof (intro impI, elim conjE)
    assume n: "typeOf lhs \<noteq> Some ''number''" and l: "lookupVariable env x st = (Ok (ArrayVal a), st)"
    from array_index_not_number [of ?ev left env st lhs st1 host Undefined None a] assms(1) n
    obtain e where "accessSlot host ?ev env left Undefined None (ArrayVal a) st = (Throw e, st1)"
      by blast
    with l have "evaluate host (Suc fuel) (MemberExpression (Identifier x) left True) env st
                 = (Throw e, st1)"
      by (simp add: dispatch_def evaluateMemberExpression_def lookupRoot_def)
    then show "\<exists>e. evaluate host (Suc fuel) (MemberExpression (Identifier x) left True) env st
                 = (Throw e, st1)" ..
  qed
  from c1 c2 c3 c4 show ?thesis by blast
qed

text \<open>With the string "a" and the number 1 as operands, as callee and as index of the
  array \<open>xs\<close>.\<close>

theorem C8_operand_type_mismatch_yields_false_witness:
  "isRuntimeValue (StringVal ''a'' :: int rvalue) \<and> isRuntimeValue (NumberVal (1::int))
   \<and> evaluate intHost 2 (BinaryExpression (StringLiteral ''a'') (NumericLiteral 1) ''&&'') 0 arrayScope
       = (Ok (BooleanVal False), arrayScope)
   \<and> evaluate intHost 2 (BinaryExpression (StringLiteral ''a'') (NumericLiteral 1) ''+'') 0 arrayScope
       = (Ok (BooleanVal False), arrayScope)
   \<and> evaluate intHost 2 (CallExpression (StringLiteral ''a'') []) 0 arrayScope
       = (Throw NotCallable, arrayScope)
   \<and> (\<exists>e. evaluate intHost 2 (MemberExpression (Identifier ''xs'') (StringLiteral ''a'') True) 0 arrayScope
            = (Throw e, arrayScope))"
proof -
  let ?g = "arrayScope"
  have two: "(2::nat) = Suc (Suc 0)" by simp
  have l: "evaluate intHost (Suc 0) (StringLiteral ''a'') 0 ?g = (Ok (StringVal ''a''), ?g)"
    by (simp add: dispatch_def)
  have r: "evaluate intHost (Suc 0) (NumericLiteral 1) 0 ?g = (Ok (NumberVal 1), ?g)"
    by (simp add: dispatch_def)
  have a: "isRuntimeValue (StringVal ''a'' :: int rvalue)" by (simp add: isRuntimeValue_def)
  have b: "isRuntimeValue (NumberVal (1::int))" by (simp add: isRuntimeValue_def)
  have "fst (lookupVariable 0 ''xs'' ?g) = Ok (ArrayVal 0)" by code_simp
  then have x: "lookupVariable 0 ''xs'' ?g = (Ok (ArrayVal 0), ?g)"
    by (metis lookupVariable_store prod.collapse)
  note t1 = C8_operand_type_mismatch_yields_false [OF l r a b, of "''&&''" "''xs''" 0]
  note t2 = C8_operand_type_mismatch_yields_false [OF l r a b, of "''+''" "''xs''" 0]
  from t1 have c1: "evaluate intHost 2 (BinaryExpression (StringLiteral ''a'') (NumericLiteral 1) ''&&'') 0 ?g
       = (Ok (BooleanVal False), ?g)" unfolding two by simp
  from t2 have c2: "evaluate intHost 2 (BinaryExpression (StringLiteral ''a'') (NumericLiteral 1) ''+'') 0 ?g
       = (Ok (BooleanVal False), ?g)" unfolding two by simp
  from t1 have c3: "evaluate intHost 2 (CallExpression (StringLiteral ''a'') []) 0 ?g
       = (Throw NotCallable, ?g)" unfolding two by simp
  from t1 x have c4: "\<exists>e. evaluate intHost 2 (MemberExpression (Identifier ''xs'') (StringLiteral ''a'') True) 0 ?g
            = (Throw e, ?g)" unfolding two by simp
  from a b c1 c2 c3 c4 show ?thesis by blast
qed

subsection \<open>If statements\<close>

text \<open>
  C4, as the claim states it, fails: not every test result other than the boolean true
  runs the alternate. A test that evaluates to the host's \<open>undefined\<close> (here the
  missing key \<open>zz\<close> of \<open>o\<close>, after \<open>const o = {"x": "vx", "k": "vk"}\<close>) makes the
  read of its \<open>value\<close> field raise: \<open>if (o.zz) { "a" } else { "b" }\<close> fails, where
  \<open>if (o.x) { "a" } else { "b" }\<close>, whose test is the string "vx", yields "b".
\<close>

theorem C4_undefined_test_counterexample:
  "fst (evaluate intHost 3 (MemberExpression (Identifier ''o'') (Identifier ''zz'') False) 0 keyedScope)
     = Ok Undefined
   \<and> fst (evaluate intHost 4
            (IfStatement (MemberExpression (Identifier ''o'') (Identifier ''zz'') False)
               [StringLiteral ''a''] (Some [StringLiteral ''b'']))
            0 keyedScope) = Throw HostTypeError
   \<and> fst (evaluate intHost 4
            (IfStatement (MemberExpression (Identifier ''o'') (Identifier ''x'') False)
               [StringLiteral ''a''] (Some [StringLiteral ''b'']))
            0 keyedScope) = Ok (StringVal ''b'')"
  by code_simp

text \<open>
  C4, amended. When the test of an IfStatement evaluates to a value other than the
  host's \<open>undefined\<close>, the body runs, in a fresh child scope of the current one,
  exactly when that value is the boolean true; for any other such value (the boolean
  false or a value that is not a boolean) the alternate runs in a fresh child scope
  when there is one, and the result is null otherwise.
\<close>

theorem C4_if_statement_strict_boolean:
  assumes "evaluate host fuel test env st = (Ok t, st1)" and "t \<noteq> Undefined"
  shows "evaluate host (Suc fuel) (IfStatement test body alternate) env st =
           (if t = BooleanVal True
            then runStatements (evaluate host fuel) body (nextEnv st1) NullVal
                   (snd (newEnvironment (Some env) st1))
            else (case alternate of
                    Some alt \<Rightarrow> runStatements (evaluate host fuel) alt (nextEnv st1) NullVal
                                  (snd (newEnvironment (Some env) st1))
                  | None \<Rightarrow> (Ok NullVal, st1)))
         \<and> envs (snd (newEnvironment (Some env) st1)) (nextEnv st1)
             = \<lparr>parent = Some env, variables = (\<lambda>k. None), constants = {}\<rparr>"
proof -
  have b: "evalBody (evaluate host fuel) ss env True st1
           = runStatements (evaluate host fuel) ss (nextEnv st1) NullVal (snd (newEnvironment (Some env) st1))"
    for ss
    by (simp add: evalBody_def newEnvironment_def MK_NULL_def)
  have "evaluate host (Suc fuel) (IfStatement test body alternate) env st
        = evalIfStatement (evaluate host fuel) test body alternate env st"
    by (simp add: dispatch_def)
  also have "\<dots> = (if t = BooleanVal True
            then runStatements (evaluate host fuel) body (nextEnv st1) NullVal
                   (snd (newEnvironment (Some env) st1))
            else (case alternate of
                    Some alt \<Rightarrow> runStatements (evaluate host fuel) alt (nextEnv st1) NullVal
                                  (snd (newEnvironment (Some env) st1))
                  | None \<Rightarrow> (Ok NullVal, st1)))"
    using assms
    by (simp add: evalIfStatement_def andThen_def valueField_true b MK_NULL_def split: option.split)
  finally show ?thesis by (simp add: newEnvironment_fresh)
qed

text \<open>\<open>if (1) { "a" } else { "b" }\<close> yields "b", and \<open>if (1) { "a" }\<close> yields null.\<close>

theorem C4_if_statement_strict_boolean_witness:
  "NumberVal (1::int) \<noteq> Undefined
   \<and> fst (evaluate intHost (Suc (Suc 0))
            (IfStatement (NumericLiteral 1) [StringLiteral ''a''] (Some [StringLiteral ''b'']))
            0 createGlobalEnvironment) = Ok (StringVal ''b'')
   \<and> fst (evaluate intHost (Suc (Suc 0))
            (IfStatement (NumericLiteral 1) [StringLiteral ''a''] None)
            0 createGlobalEnvironment) = Ok NullVal"
proof -
  let ?g = "createGlobalEnvironment :: int heap"
  have t: "evaluate intHost (Suc 0) (NumericLiteral 1) 0 ?g = (Ok (NumberVal 1), ?g)"
    by (simp add: dispatch_def)
  have a: "NumberVal (1::int) \<noteq> Undefined" by simp
  from C4_if_statement_strict_boolean [OF t a, of "[StringLiteral ''a'']" "Some [StringLiteral ''b'']"]
  have c1: "fst (evaluate intHost (Suc (Suc 0))
            (IfStatement (NumericLiteral 1) [StringLiteral ''a''] (Some [StringLiteral ''b'']))
            0 ?g) = Ok (StringVal ''b'')"
    by (simp add: dispatch_def)
  from C4_if_statement_strict_boolean [OF t a, of "[StringLiteral ''a'']" None]
  have c2: "fst (evaluate intHost (Suc (Suc 0))
            (IfStatement (NumericLiteral 1) [StringLiteral ''a''] None) 0 ?g) = Ok NullVal"
    by simp
  from a c1 c2 show ?thesis by blast
qed

subsection \<open>For statements\<close>

text \<open>
  C10. The evaluation of a ForStatement yields null however many rounds ran and
  whatever the last body statement yielded. No evaluation returns another value. With
  the declaration and the first test evaluated in the loop scope: when that test is
  neither the boolean true nor the host's \<open>undefined\<close>, the statement returns null
  without a round; when it is the boolean true, \<open>n\<close> rounds after each of which the
  loop goes on are run and the next round ends the loop, the statement returns null in
  the store that round leaves, given fuel for the \<open>n + 1\<close> rounds.
\<close>

theorem C10_for_statement_yields_null:
  "(evaluate host k (ForStatement constant identifier val test assignee update body) env st = (Ok r, st')
      \<longrightarrow> r = NullVal)
   \<and> (evaluateVariableDeclaration (evaluate host fuel) constant identifier val (nextEnv st)
         (snd (newEnvironment (Some env) st)) = (Ok d, st2)
      \<and> evaluate host fuel test (nextEnv st) st2 = (Ok t, st3)
      \<and> t \<noteq> Undefined \<and> t \<noteq> BooleanVal True
      \<longrightarrow> evaluate host (Suc fuel) (ForStatement constant identifier val test assignee update body) env st
            = (Ok NullVal, st3))
   \<and> (evaluateVariableDeclaration (evaluate host fuel) constant identifier val (nextEnv st)
         (snd (newEnvironment (Some env) st)) = (Ok d, st2)
      \<and> evaluate host fuel test (nextEnv st) st2 = (Ok (BooleanVal True), st3)
      \<and> (\<forall>i<n. roundRepeats host (evaluate host fuel) test assignee update body (nextEnv st)
                  (afterRounds i host (evaluate host fuel) test assignee update body (nextEnv st) st3))
      \<and> roundEnds host (evaluate host fuel) test assignee update body (nextEnv st)
           (afterRounds n host (evaluate host fuel) test assignee update body (nextEnv st) st3)
      \<and> n < fuel
      \<longrightarrow> evaluate host (Suc fuel) (ForStatement constant identifier val test assignee update body) env st
            = (Ok NullVal,
               snd (forRound host (evaluate host fuel) test assignee update body (nextEnv st)
                      (afterRounds n host (evaluate host fuel) test assignee update body (nextEnv st) st3))))"
proof (intro conjI impI)
  assume a: "evaluate host k (ForStatement constant identifier val test assignee update body) env st = (Ok r, st')"
  show "r = NullVal"
  proof (cases k)
    case 0
    with a show ?thesis by simp
  next
    case (Suc m)
    with a have "evalForStatement m host (evaluate host m) constant identifier val test assignee
                     update body env st = (Ok r, st')"
      by (simp add: dispatch_def)
    then show ?thesis
      by (auto simp: evalForStatement_def andThen_def MK_NULL_def Let_def
             split: prod.splits outcome.splits if_splits dest: forLoop_null)
  qed
next
  assume "evaluateVariableDeclaration (evaluate host fuel) constant identifier val (nextEnv st)
         (snd (newEnvironment (Some env) st)) = (Ok d, st2)
      \<and> evaluate host fuel test (nextEnv st) st2 = (Ok t, st3)
      \<and> t \<noteq> Undefined \<and> t \<noteq> BooleanVal True"
  then show "evaluate host (Suc fuel) (ForStatement constant identifier val test assignee update body) env st
            = (Ok NullVal, st3)"
    unfolding evaluate_for by (simp add: andThen_def)
next
  assume h: "evaluateVariableDeclaration (evaluate host fuel) constant identifier val (nextEnv st)
         (snd (newEnvironment (Some env) st)) = (Ok d, st2)
      \<and> evaluate host fuel test (nextEnv st) st2 = (Ok (BooleanVal True), st3)
      \<and> (\<forall>i<n. roundRepeats host (evaluate host fuel) test assignee update body (nextEnv st)
                  (afterRounds i host (evaluate host fuel) test assignee update body (nextEnv st) st3))
      \<and> roundEnds host (evaluate host fuel) test assignee update body (nextEnv st)
           (afterRounds n host (evaluate host fuel) test assignee update body (nextEnv st) st3)
      \<and> n < fuel"
  then have "forLoop fuel host (evaluate host fuel) test assignee update body (nextEnv st) st3
     = (Ok NullVal,
               snd (forRound host (evaluate host fuel) test assignee update body (nextEnv st)
                      (afterRounds n host (evaluate host fuel) test assignee update body (nextEnv st) st3)))"
    by (intro forLoop_rounds) simp_all
  with h show "evaluate host (Suc fuel) (ForStatement constant identifier val test assignee update body) env st
            = (Ok NullVal,
               snd (forRound host (evaluate host fuel) test assignee update body (nextEnv st)
                      (afterRounds n host (evaluate host fuel) test assignee update body (nextEnv st) st3)))"
    unfolding evaluate_for by (simp add: andThen_def)
qed

text \<open>
  \<open>for (let i; "go"; i = 1) { "x" }\<close> runs no round; the loop of \<open>truthyLoop\<close> runs
  two rounds (one after which it goes on, one that ends it); the loop of
  \<open>oneRoundLoop\<close> runs one round whose body ends in the string "last". Each yields null.
\<close>

theorem C10_for_statement_yields_null_witness:
  "fst (evaluate intHost (Suc 3)
          (ForStatement False ''i'' None (StringLiteral ''go'') (Identifier ''i'') (NumericLiteral 1)
             [StringLiteral ''x''])
          0 createGlobalEnvironment) = Ok NullVal
   \<and> fst (evaluate intHost (Suc 3) truthyLoop 0
            (snd (evaluate intHost 3 truthyLoopSetup 0 createGlobalEnvironment))) = Ok NullVal
   \<and> fst (evaluate intHost 4 oneRoundLoop 0 (snd (evaluate intHost 3 oneRoundSetup 0 createGlobalEnvironment)))
       = Ok NullVal
   \<and> getVariable 0 ''k''
       (snd (evaluate intHost 4 oneRoundLoop 0 (snd (evaluate intHost 3 oneRoundSetup 0 createGlobalEnvironment))))
     = StringVal ''ran''"
proof -
  let ?g = "createGlobalEnvironment :: int heap"
  let ?ev = "evaluate intHost 3"
  let ?I0 = "evaluateVariableDeclaration ?ev False ''i'' None (nextEnv ?g) (snd (newEnvironment (Some 0) ?g))"
  let ?T0 = "?ev (StringLiteral ''go'') (nextEnv ?g) (snd ?I0)"
  have i0: "?I0 = (Ok NullVal, snd ?I0)" by (rule fst_pair) code_simp
  have t0: "?T0 = (Ok (StringVal ''go''), snd ?T0)" by (rule fst_pair) code_simp
  have "evaluate intHost (Suc 3)
          (ForStatement False ''i'' None (StringLiteral ''go'') (Identifier ''i'') (NumericLiteral 1)
             [StringLiteral ''x'']) 0 ?g = (Ok NullVal, snd ?T0)"
    by (rule C10_for_statement_yields_null [THEN conjunct2, THEN conjunct1, THEN mp])
       (intro conjI, rule i0, rule t0, simp, simp)
  then have c1: "fst (evaluate intHost (Suc 3)
          (ForStatement False ''i'' None (StringLiteral ''go'') (Identifier ''i'') (NumericLiteral 1)
             [StringLiteral ''x'']) 0 ?g) = Ok NullVal"
    by simp
  let ?S = "snd (evaluate intHost 3 truthyLoopSetup 0 ?g)"
  let ?I = "evaluateVariableDeclaration ?ev False ''i'' None (nextEnv ?S) (snd (newEnvironment (Some 0) ?S))"
  let ?T = "?ev (Identifier ''t'') (nextEnv ?S) (snd ?I)"
  let ?body = "[AssignmentExpression (Identifier ''seen'') (Identifier ''t''),
        AssignmentExpression (Identifier ''s'') (Identifier ''q''),
        AssignmentExpression (Identifier ''q'') (Identifier ''false'')]"
  have i: "?I = (Ok NullVal, snd ?I)" by (rule fst_pair) code_simp
  have t: "?T = (Ok (BooleanVal True), snd ?T)" by (rule fst_pair) code_simp
  have r0: "roundRepeats intHost ?ev (Identifier ''t'') (Identifier ''t'') (Identifier ''s'') ?body (nextEnv ?S)
              (afterRounds 0 intHost ?ev (Identifier ''t'') (Identifier ''t'') (Identifier ''s'') ?body (nextEnv ?S) (snd ?T))"
    by code_simp
  have r1: "roundEnds intHost ?ev (Identifier ''t'') (Identifier ''t'') (Identifier ''s'') ?body (nextEnv ?S)
              (afterRounds (Suc 0) intHost ?ev (Identifier ''t'') (Identifier ''t'') (Identifier ''s'') ?body (nextEnv ?S) (snd ?T))"
    by code_simp
  have "evaluate intHost (Suc 3)
          (ForStatement False ''i'' None (Identifier ''t'') (Identifier ''t'') (Identifier ''s'') ?body) 0 ?S
        = (Ok NullVal, snd (forRound intHost ?ev (Identifier ''t'') (Identifier ''t'') (Identifier ''s'') ?body (nextEnv ?S)
              (afterRounds (Suc 0) intHost ?ev (Identifier ''t'') (Identifier ''t'') (Identifier ''s'') ?body (nextEnv ?S) (snd ?T))))"
    by (rule C10_for_statement_yields_null [THEN conjunct2, THEN conjunct2, THEN mp])
       (intro conjI, rule i, rule t, rule less_one_all, rule r0, rule r1, simp)
  then have c2: "fst (evaluate intHost (Suc 3) truthyLoop 0 ?S) = Ok NullVal"
    by (simp add: truthyLoop_def)
  let ?E = "evaluate intHost 4 oneRoundLoop 0 (snd (evaluate intHost 3 oneRoundSetup 0 createGlobalEnvironment))"
  have "\<exists>r. fst ?E = Ok r" by (rule exI [of _ NullVal], code_simp)
  then obtain r where r: "fst ?E = Ok r" ..
  then have "?E = (Ok r, snd ?E)" by (rule fst_pair)
  then have "r = NullVal"
    unfolding oneRoundLoop_def by (rule C10_for_statement_yields_null [THEN conjunct1, THEN mp])
  with r have c3: "fst ?E = Ok NullVal" by simp
  have c4: "getVariable 0 ''k'' (snd ?E) = StringVal ''ran''" by code_simp
  from c1 c2 c3 c4 show ?thesis by blast
qed

text \<open>
  C1. A run of the for statement whose test is \<open>true\<close> at the start and the string
  "go" when it is evaluated again after the first iteration: the body runs a second
  time (it starts with the test value "go", which \<open>seen\<close> records), and the loop ends
  only when the test has become \<open>false\<close>.
\<close>

theorem C1_for_loop_continues_on_truthy_test:
  "fst (evaluate intHost 4 truthyLoop 0 (snd (evaluate intHost 3 truthyLoopSetup 0 createGlobalEnvironment)))
     = Ok NullVal
   \<and> getVariable 0 ''seen''
       (snd (evaluate intHost 4 truthyLoop 0 (snd (evaluate intHost 3 truthyLoopSetup 0 createGlobalEnvironment))))
     = StringVal ''go''
   \<and> getVariable 0 ''t''
       (snd (evaluate intHost 4 truthyLoop 0 (snd (evaluate intHost 3 truthyLoopSetup 0 createGlobalEnvironment))))
     = BooleanVal False"
  by code_simp

subsection \<open>Calls\<close>

text \<open>
  C3, as the claim states it, fails: the arguments are evaluated before the callee. In
  \<open>f(f = g)\<close>, with \<open>f\<close> null and \<open>g\<close> a function, the argument assigns \<open>g\<close> to \<open>f\<close>
  and the callee, read afterwards, is \<open>g\<close>: the call returns "G". Evaluated callee
  first, the callee is null and the call raises.
\<close>

theorem C3_callee_first_counterexample:
  "fst (evaluate intHost 4
          (CallExpression (Identifier ''f'') [AssignmentExpression (Identifier ''f'') (Identifier ''g'')])
          0 callScope) = Ok (StringVal ''G'')
   \<and> fst (specCallExpression intHost (evaluate intHost 3)
          (Identifier ''f'') [AssignmentExpression (Identifier ''f'') (Identifier ''g'')]
          0 callScope) = Throw NotCallable"
  by code_simp

text \<open>
  C3, amended. A CallExpression evaluates its arguments left to right and then the
  callee, in the store the arguments leave: a throw of an argument ends the call
  before the callee is evaluated; a callee that is neither a function nor a native
  function raises the "not callable" failure; a function value is applied by
  \<open>evaluateFunction\<close> and a native function by the host.
\<close>

theorem C3_call_evaluates_arguments_then_callee:
  "(evaluateArgs (evaluate host fuel) args env st = (Throw e, st1)
      \<longrightarrow> evaluate host (Suc fuel) (CallExpression callee args) env st = (Throw e, st1))
   \<and> (evaluateArgs (evaluate host fuel) args env st = (Ok vs, st1)
        \<and> evaluate host fuel callee env st1 = (Throw e, st2)
      \<longrightarrow> evaluate host (Suc fuel) (CallExpression callee args) env st = (Throw e, st2))
   \<and> (evaluateArgs (evaluate host fuel) args env st = (Ok vs, st1)
        \<and> evaluate host fuel callee env st1 = (Ok fn, st2)
        \<and> typeOf fn \<noteq> Some ''fn'' \<and> typeOf fn \<noteq> Some ''native-fn''
      \<longrightarrow> evaluate host (Suc fuel) (CallExpression callee args) env st = (Throw NotCallable, st2))
   \<and> (evaluateArgs (evaluate host fuel) args env st = (Ok vs, st1)
        \<and> evaluate host fuel callee env st1 = (Ok (FnVal name params declarationEnv bodyRef body), st2)
      \<longrightarrow> evaluate host (Suc fuel) (CallExpression callee args) env st
            = evaluateFunction (evaluate host fuel) params declarationEnv body vs st2)
   \<and> (evaluateArgs (evaluate host fuel) args env st = (Ok vs, st1)
        \<and> evaluate host fuel callee env st1 = (Ok (NativeFnVal k), st2)
      \<longrightarrow> evaluate host (Suc fuel) (CallExpression callee args) env st = native_call host k vs env st2)
   \<and> (evaluateArgs (evaluate host fuel) xs env st = (Ok vs, st1)
        \<and> evaluateArgs (evaluate host fuel) ys env st1 = (Ok ws, st2)
      \<longrightarrow> evaluateArgs (evaluate host fuel) (xs @ ys) env st = (Ok (vs @ ws), st2))"
proof -
  let ?ev = "evaluate host fuel"
  have d: "evaluate host (Suc fuel) (CallExpression callee args) env st
           = evalCallExpression host ?ev callee args env st"
    by (simp add: dispatch_def)
  have c1: "evaluateArgs ?ev args env st = (Throw e, st1)
      \<longrightarrow> evaluate host (Suc fuel) (CallExpression callee args) env st = (Throw e, st1)"
    unfolding d by (simp add: evalCallExpression_def andThen_def)
  have c2: "evaluateArgs ?ev args env st = (Ok vs, st1) \<and> ?ev callee env st1 = (Throw e, st2)
      \<longrightarrow> evaluate host (Suc fuel) (CallExpression callee args) env st = (Throw e, st2)"
    unfolding d by (simp add: evalCallExpression_def andThen_def)
  have c3: "evaluateArgs ?ev args env st = (Ok vs, st1) \<and> ?ev callee env st1 = (Ok fn, st2)
        \<and> typeOf fn \<noteq> Some ''fn'' \<and> typeOf fn \<noteq> Some ''native-fn''
      \<longrightarrow> evaluate host (Suc fuel) (CallExpression callee args) env st = (Throw NotCallable, st2)"
    unfolding d using call_not_callable [of ?ev args env st vs st1 callee fn st2 host] by blast
  have c4: "evaluateArgs ?ev args env st = (Ok vs, st1)
        \<and> ?ev callee env st1 = (Ok (FnVal name params declarationEnv bodyRef body), st2)
      \<longrightarrow> evaluate host (Suc fuel) (CallExpression callee args) env st
            = evaluateFunction ?ev params declarationEnv body vs st2"
    unfolding d by (simp add: evalCallExpression_def andThen_def)
  have c5: "evaluateArgs ?ev args env st = (Ok vs, st1) \<and> ?ev callee env st1 = (Ok (NativeFnVal k), st2)
      \<longrightarrow> evaluate host (Suc fuel) (CallExpression callee args) env st = native_call host k vs env st2"
    unfolding d by (simp add: evalCallExpression_def andThen_def)
  have c6: "evaluateArgs ?ev xs env st = (Ok vs, st1) \<and> evaluateArgs ?ev ys env st1 = (Ok ws, st2)
      \<longrightarrow> evaluateArgs ?ev (xs @ ys) env st = (Ok (vs @ ws), st2)"
    by (simp add: evaluateArgs_append)
  from c1 c2 c3 c4 c5 c6 show ?thesis by blast
qed

text \<open>\<open>f(f = g)\<close> returns "G", and \<open>"s"(f)\<close> raises.\<close>

theorem C3_call_evaluates_arguments_then_callee_witness:
  "fst (evaluate intHost 4
          (CallExpression (Identifier ''f'') [AssignmentExpression (Identifier ''f'') (Identifier ''g'')])
          0 callScope) = Ok (StringVal ''G'')
   \<and> fst (evaluate intHost 4 (CallExpression (StringLiteral ''s'') [Identifier ''f'']) 0 callScope)
       = Throw NotCallable"
proof -
  let ?ev = "evaluate intHost 3"
  let ?args = "[AssignmentExpression (Identifier ''f'') (Identifier ''g'')]"
  let ?g = "FnVal ''g'' [] 0 0 [StringLiteral ''G''] :: int rvalue"
  have four: "(4::nat) = Suc 3" by simp
  define st1 where "st1 = snd (evaluateArgs ?ev ?args 0 callScope)"
  define st2 where "st2 = snd (?ev (Identifier ''f'') 0 st1)"
  have "fst (evaluateArgs ?ev ?args 0 callScope) = Ok [?g]" by code_simp
  then have a: "evaluateArgs ?ev ?args 0 callScope = (Ok [?g], st1)"
    unfolding st1_def by (metis prod.collapse)
  have "fst (?ev (Identifier ''f'') 0 st1) = Ok ?g" unfolding st1_def by code_simp
  then have b: "?ev (Identifier ''f'') 0 st1 = (Ok ?g, st2)"
    unfolding st2_def by (metis prod.collapse)
  from C3_call_evaluates_arguments_then_callee
         [of intHost 3 ?args 0 callScope _ st1 "Identifier ''f''" "[?g]" st2] a b
  have "evaluate intHost (Suc 3) (CallExpression (Identifier ''f'') ?args) 0 callScope
        = evaluateFunction ?ev [] 0 [StringLiteral ''G''] [?g] st2"
    by blast
  then have c1: "fst (evaluate intHost 4 (CallExpression (Identifier ''f'') ?args) 0 callScope)
        = Ok (StringVal ''G'')"
    unfolding four
    by (simp add: numeral_3_eq_3 evaluateFunction_def newEnvironment_def andThen_def dispatch_def
          MK_NULL_def)
  define st3 where "st3 = snd (evaluateArgs ?ev [Identifier ''f''] 0 callScope)"
  have "fst (evaluateArgs ?ev [Identifier ''f''] 0 callScope) = Ok [NullVal]" by code_simp
  then have a': "evaluateArgs ?ev [Identifier ''f''] 0 callScope = (Ok [NullVal], st3)"
    unfolding st3_def by (metis prod.collapse)
  have b': "?ev (StringLiteral ''s'') 0 st3 = (Ok (StringVal ''s''), st3)"
    by (simp add: numeral_3_eq_3 dispatch_def)
  from C3_call_evaluates_arguments_then_callee
         [of intHost 3 "[Identifier ''f'']" 0 callScope _ st3 "StringLiteral ''s''" "[NullVal]" st3
             "StringVal ''s''"] a' b'
  have "evaluate intHost (Suc 3) (CallExpression (StringLiteral ''s'') [Identifier ''f'']) 0 callScope
        = (Throw NotCallable, st3)"
    by simp
  then have c2: "fst (evaluate intHost 4 (CallExpression (StringLiteral ''s'') [Identifier ''f'']) 0 callScope)
       = Throw NotCallable"
    unfolding four by simp
  from c1 c2 show ?thesis by simp
qed

text \<open>
  C6, as the claim states it, fails: a parameter without argument holds the host's
  \<open>undefined\<close>, not the null runtime value. \<open>f()\<close> with \<open>fn f(a) { a == null }\<close>
  raises (\<open>==\<close> reads the type of its left operand), where \<open>f(null)\<close> returns true;
  and \<open>h("x")\<close> with \<open>fn h(a, b) { b }\<close> returns \<open>undefined\<close>.
\<close>

theorem C6_missing_parameter_counterexample:
  "fst (evaluate intHost 5 (CallExpression (Identifier ''f'') []) 0 paramScope) = Throw HostTypeError
   \<and> fst (evaluate intHost 5 (CallExpression (Identifier ''f'') [Identifier ''null'']) 0 paramScope)
       = Ok (BooleanVal True)
   \<and> fst (evaluate intHost 5 (CallExpression (Identifier ''h'') [StringLiteral ''x'']) 0 paramScope)
       = Ok Undefined"
  by code_simp

text \<open>
  C6, amended. A call of a user function with distinct parameter names raises no arity
  error: the parameter loop ends normally, in a new scope whose parent is the
  function's declaration environment (the calling scope is not an argument of
  \<open>evaluateFunction\<close>), without constants; parameter \<open>i\<close> holds argument \<open>i\<close> when
  there is one and the host's \<open>undefined\<close> otherwise; arguments past the last
  parameter are bound to no name; the body then runs in that scope.
\<close>

theorem C6_missing_parameters_are_undefined:
  assumes "distinct params"
      and "declareParams (nextEnv st) params args (snd (newEnvironment (Some declarationEnv) st))
           = (r, st2)"
  shows "r = Ok Undefined
         \<and> evaluateFunction ev params declarationEnv body args st
             = runStatements ev body (nextEnv st) NullVal st2
         \<and> parent (envs st2 (nextEnv st)) = Some declarationEnv
         \<and> constants (envs st2 (nextEnv st)) = {}
         \<and> (\<forall>i < length params. variables (envs st2 (nextEnv st)) (params ! i)
                = Some (if i < length args then args ! i else Undefined))
         \<and> (\<forall>x. x \<notin> set params \<longrightarrow> variables (envs st2 (nextEnv st)) x = None)"
proof -
  let ?scope = "nextEnv st"
  let ?st1 = "snd (newEnvironment (Some declarationEnv) st)"
  let ?st2 = "setVariables ?scope (bindParams (\<lambda>k. None) params args) ?st1"
  have empty: "variables (envs ?st1 ?scope) = (\<lambda>k. None)"
    by (simp add: newEnvironment_def)
  then have fresh: "\<forall>p \<in> set params. variables (envs ?st1 ?scope) p = None"
    by simp
  have d: "declareParams ?scope params args ?st1 = (Ok Undefined, ?st2)"
    using declareParams_bind [OF assms(1) fresh] by (simp only: empty)
  with assms(2) have r: "r = Ok Undefined" and s: "st2 = ?st2" by simp_all
  have e: "evaluateFunction ev params declarationEnv body args st
           = runStatements ev body ?scope NullVal ?st2"
    using d by (simp add: evaluateFunction_def split_def fst_newEnvironment andThen_def MK_NULL_def)
  have p: "parent (envs ?st2 ?scope) = Some declarationEnv" "constants (envs ?st2 ?scope) = {}"
    by (simp_all add: newEnvironment_def setVariables_def)
  have v: "\<forall>i < length params. variables (envs ?st2 ?scope) (params ! i)
             = Some (if i < length args then args ! i else Undefined)"
    using assms(1) by (simp add: variables_setVariables bindParams_nth)
  have o: "\<forall>x. x \<notin> set params \<longrightarrow> variables (envs ?st2 ?scope) x = None"
    by (simp add: variables_setVariables bindParams_other)
  from r e p v o show ?thesis unfolding s by (intro conjI)
qed

text \<open>Two parameters and one argument: the first parameter reads "x", the second
  \<open>undefined\<close>.\<close>

theorem C6_missing_parameters_are_undefined_witness:
  "distinct [''a'', ''b'']
   \<and> fst (evaluateFunction (evaluate intHost 3) [''a'', ''b''] 0 [Identifier ''a'']
            [StringVal ''x''] paramScope) = Ok (StringVal ''x'')
   \<and> fst (evaluateFunction (evaluate intHost 3) [''a'', ''b''] 0 [Identifier ''b'']
            [StringVal ''x''] paramScope) = Ok Undefined"
proof -
  let ?ev = "evaluate intHost 3"
  let ?D = "declareParams (nextEnv paramScope) [''a'', ''b''] [StringVal ''x'']
              (snd (newEnvironment (Some 0) paramScope))"
  have three: "(3::nat) = Suc 2" by simp
  have d: "distinct [''a'', ''b'']" by simp
  have c: "?D = (fst ?D, snd ?D)" by simp
  note t = C6_missing_parameters_are_undefined [OF d c]
  note e = t [of ?ev "[Identifier ''a'']", THEN conjunct2, THEN conjunct1]
  note v = t [of ?ev "[Identifier ''a'']", THEN conjunct2, THEN conjunct2, THEN conjunct2,
              THEN conjunct2, THEN conjunct1]
  from v [rule_format, of 0]
  have "variables (envs (snd ?D) (nextEnv paramScope)) ''a'' = Some (StringVal ''x'')"
    by simp
  then have "runStatements ?ev [Identifier ''a''] (nextEnv paramScope) NullVal (snd ?D)
             = (Ok (StringVal ''x''), snd ?D)"
    unfolding three by (rule run_identifier)
  with e have c1: "fst (evaluateFunction ?ev [''a'', ''b''] 0 [Identifier ''a''] [StringVal ''x''] paramScope)
        = Ok (StringVal ''x'')"
    by simp
  note e' = t [of ?ev "[Identifier ''b'']", THEN conjunct2, THEN conjunct1]
  from v [rule_format, of 1]
  have "variables (envs (snd ?D) (nextEnv paramScope)) ''b'' = Some Undefined"
    by simp
  then have "runStatements ?ev [Identifier ''b''] (nextEnv paramScope) NullVal (snd ?D)
             = (Ok Undefined, snd ?D)"
    unfolding three by (rule run_identifier)
  with e' have c2: "fst (evaluateFunction ?ev [''a'', ''b''] 0 [Identifier ''b''] [StringVal ''x''] paramScope)
        = Ok Undefined"
    by simp
  from d c1 c2 show ?thesis by (intro conjI)
qed

subsection \<open>Try and catch\<close>

text \<open>
  C2, as the claim states it, fails: the raised value is not bound in the scope that
  encloses the try block. With the try statement in a block scope (address 1) of the
  global scope (address 0), the thrown value ends in the variable \<open>error\<close> of the
  global scope, which declares it; the enclosing scope has no binding of \<open>error\<close>
  afterwards.
\<close>

theorem C2_error_not_bound_in_enclosing_scope_counterexample:
  "fst (evaluate intHost 3 (TryCatchStatement [Identifier ''x''] [Identifier ''error'']) 1 blockScope)
     = Ok (Caught (CannotResolve ''x''))
   \<and> parent (envs blockScope 1) = Some 0
   \<and> variables (envs (snd (evaluate intHost 3 (TryCatchStatement [Identifier ''x''] [Identifier ''error''])
                              1 blockScope)) 1) ''error'' = None
   \<and> variables (envs (snd (evaluate intHost 3 (TryCatchStatement [Identifier ''x''] [Identifier ''error''])
                              1 blockScope)) 0) ''error'' = Some (Caught (CannotResolve ''x''))"
  by code_simp

text \<open>
  C2, amended. The try body runs in a new child scope of the enclosing scope. When it
  returns, its last value is the result of the statement. When it raises, the raised
  value is assigned to the variable \<open>error\<close> as \<open>assignVariable\<close> does from the
  enclosing scope: in the nearest scope, from the enclosing scope outwards, that
  declares \<open>error\<close> (the global scope declares it); the catch statements then run in
  a child scope of the enclosing scope of their own. When no scope declares \<open>error\<close>,
  or the nearest one declares it constant, that assignment raises and the catch
  statements do not run.
\<close>

theorem C2_try_catch_assigns_error_up_the_scope_chain:
  assumes "st2 = snd (newEnvironment (Some env) (snd (newEnvironment (Some env) st)))"
      and "runStatements (evaluate host fuel) body (nextEnv st) NullVal st2 = (r, st3)"
  shows "(\<forall>v. r = Ok v \<longrightarrow>
            evaluate host (Suc fuel) (TryCatchStatement body alternate) env st = (Ok v, st3))
       \<and> (\<forall>e target. r = Throw e \<and> resolve st3 ''error'' env = Ok target
                      \<and> ''error'' \<notin> constants (envs st3 target) \<longrightarrow>
            variables (envs st3 target) ''error'' \<noteq> None
            \<and> evaluate host (Suc fuel) (TryCatchStatement body alternate) env st
                = runStatements (evaluate host fuel) alternate (Suc (nextEnv st)) NullVal
                    (setVariable target ''error'' (Caught e) st3))
       \<and> (\<forall>e target. r = Throw e \<and> resolve st3 ''error'' env = Ok target
                      \<and> ''error'' \<in> constants (envs st3 target) \<longrightarrow>
            evaluate host (Suc fuel) (TryCatchStatement body alternate) env st
              = (Throw (ConstReassign ''error''), st3))
       \<and> (\<forall>e e'. r = Throw e \<and> resolve st3 ''error'' env = Throw e' \<longrightarrow>
            evaluate host (Suc fuel) (TryCatchStatement body alternate) env st = (Throw e', st3))
       \<and> envs st2 (nextEnv st) = \<lparr>parent = Some env, variables = (\<lambda>k. None), constants = {}\<rparr>
       \<and> envs st2 (Suc (nextEnv st)) = \<lparr>parent = Some env, variables = (\<lambda>k. None), constants = {}\<rparr>"
proof -
  let ?ev = "evaluate host fuel"
  have t: "evaluate host (Suc fuel) (TryCatchStatement body alternate) env st
           = (case r of
                Throw e \<Rightarrow>
                  andThen (assignVariable env ''error'' (Caught e) st3) (\<lambda>v st4.
                    runStatements ?ev alternate (Suc (nextEnv st)) NullVal st4)
              | Ok v \<Rightarrow> (Ok v, st3)
              | Diverge \<Rightarrow> (Diverge, st3))"
    using evalTryCatchStatement_cases [OF assms(2) [unfolded assms(1)]]
    by (simp add: dispatch_def)
  have c1: "\<forall>v. r = Ok v \<longrightarrow>
            evaluate host (Suc fuel) (TryCatchStatement body alternate) env st = (Ok v, st3)"
    unfolding t by simp
  have c2: "\<forall>e target. r = Throw e \<and> resolve st3 ''error'' env = Ok target
                      \<and> ''error'' \<notin> constants (envs st3 target) \<longrightarrow>
            variables (envs st3 target) ''error'' \<noteq> None
            \<and> evaluate host (Suc fuel) (TryCatchStatement body alternate) env st
                = runStatements ?ev alternate (Suc (nextEnv st)) NullVal
                    (setVariable target ''error'' (Caught e) st3)"
    unfolding t by (auto simp: assignVariable_def andThen_def dest: resolve_found)
  have c3: "\<forall>e target. r = Throw e \<and> resolve st3 ''error'' env = Ok target
                      \<and> ''error'' \<in> constants (envs st3 target) \<longrightarrow>
            evaluate host (Suc fuel) (TryCatchStatement body alternate) env st
              = (Throw (ConstReassign ''error''), st3)"
    unfolding t by (simp add: assignVariable_def andThen_def)
  have c4: "\<forall>e e'. r = Throw e \<and> resolve st3 ''error'' env = Throw e' \<longrightarrow>
            evaluate host (Suc fuel) (TryCatchStatement body alternate) env st = (Throw e', st3)"
    unfolding t by (simp add: assignVariable_def andThen_def)
  have c5: "envs st2 (nextEnv st) = \<lparr>parent = Some env, variables = (\<lambda>k. None), constants = {}\<rparr>"
    "envs st2 (Suc (nextEnv st)) = \<lparr>parent = Some env, variables = (\<lambda>k. None), constants = {}\<rparr>"
    unfolding assms(1) by (simp_all add: newEnvironment_def)
  from c1 c2 c3 c4 c5 show ?thesis by (intro conjI)
qed

text \<open>In the global scope, \<open>try { x } catch { error }\<close> yields the failure raised by
  the lookup of \<open>x\<close>, and \<open>try { "ok" } catch { "no" }\<close> yields "ok".\<close>

theorem C2_try_catch_assigns_error_up_the_scope_chain_witness:
  "fst (evaluate intHost 3 (TryCatchStatement [Identifier ''x''] [Identifier ''error'']) 0
          createGlobalEnvironment) = Ok (Caught (CannotResolve ''x''))
   \<and> fst (evaluate intHost 3 (TryCatchStatement [StringLiteral ''ok''] [StringLiteral ''no'']) 0
          createGlobalEnvironment) = Ok (StringVal ''ok'')"
proof -
  let ?g = "createGlobalEnvironment :: int heap"
  let ?st2 = "snd (newEnvironment (Some 0) (snd (newEnvironment (Some 0) ?g)))"
  let ?R = "runStatements (evaluate intHost 2) [Identifier ''x''] (nextEnv ?g) NullVal ?st2"
  let ?R' = "runStatements (evaluate intHost 2) [StringLiteral ''ok''] (nextEnv ?g) NullVal ?st2"
  have three: "(3::nat) = Suc 2" by simp
  have r: "?R = (fst ?R, snd ?R)" by simp
  have r': "?R' = (fst ?R', snd ?R')" by simp
  have f: "fst ?R = Throw (CannotResolve ''x'')" by code_simp
  have t: "resolve (snd ?R) ''error'' 0 = Ok 0" by code_simp
  have c: "''error'' \<notin> constants (envs (snd ?R) 0)" by code_simp
  note a = C2_try_catch_assigns_error_up_the_scope_chain
             [OF refl r, of "[Identifier ''error'']", THEN conjunct2, THEN conjunct1, rule_format,
              of "CannotResolve ''x''" 0, THEN conjunct2]
  from a f t c
  have "evaluate intHost (Suc 2) (TryCatchStatement [Identifier ''x''] [Identifier ''error'']) 0 ?g
        = runStatements (evaluate intHost 2) [Identifier ''error''] (Suc (nextEnv ?g)) NullVal
            (setVariable 0 ''error'' (Caught (CannotResolve ''x'')) (snd ?R))"
    by simp
  moreover
  have "fst (runStatements (evaluate intHost 2) [Identifier ''error''] (Suc (nextEnv ?g)) NullVal
            (setVariable 0 ''error'' (Caught (CannotResolve ''x'')) (snd ?R)))
        = Ok (Caught (CannotResolve ''x''))"
    by code_simp
  ultimately
  have c1: "fst (evaluate intHost 3 (TryCatchStatement [Identifier ''x''] [Identifier ''error'']) 0 ?g)
            = Ok (Caught (CannotResolve ''x''))"
    unfolding three by simp
  have f': "fst ?R' = Ok (StringVal ''ok'')" by code_simp
  note b = C2_try_catch_assigns_error_up_the_scope_chain
             [OF refl r', of "[StringLiteral ''no'']", THEN conjunct1, rule_format,
              of "StringVal ''ok''"]
  from b f'
  have c2: "fst (evaluate intHost 3 (TryCatchStatement [StringLiteral ''ok''] [StringLiteral ''no'']) 0 ?g)
            = Ok (StringVal ''ok'')"
    unfolding three by simp
  from c1 c2 show ?thesis by (intro conjI)
qed

subsection \<open>Member expressions\<close>

text \<open>
  C5, as the claim states it, fails: bracket access to an object does not use the
  evaluated key. With \<open>o = {"x": "vx", "k": "vk"}\<close> and \<open>k = "x"\<close>, \<open>o[k]\<close> reads the
  property named "k" (the symbol of the identifier), not the property "x" that \<open>k\<close>
  evaluates to.
\<close>

theorem C5_bracket_key_not_evaluated_counterexample:
  "getVariable 0 ''k'' keyedScope = StringVal ''x''
   \<and> mapGet 0 (Some ''x'') keyedScope = StringVal ''vx''
   \<and> fst (evaluate intHost 3 (MemberExpression (Identifier ''o'') (Identifier ''k'') True) 0 keyedScope)
       = Ok (StringVal ''vk'')"
  by code_simp

text \<open>
  C5, amended. A member expression is read, and an assignment to one written, by
  \<open>lookupOrMutObject\<close>. Let the object part of the expression yield the container.
  When the container is an object and the property node is an identifier, the slot is
  the key that is the identifier's symbol, for dotted and bracket access alike (the
  property is not evaluated): a read yields the value stored there, a write stores the
  new value there. When the container is an array, the property is evaluated: a number
  is used as the element index, for reading and for writing; any other value raises.
  A write changes the Map or array at the container's address and no environment, so
  every variable holding that object or array reads the new value.
\<close>

theorem C5_path_resolution:
  assumes "containerOf host (evaluate host fuel) env obj st = (Ok c, st1)"
  shows "evaluate host (Suc fuel) (MemberExpression obj exprProperty computed) env st
           = lookupOrMutObject host (evaluate host fuel) env (MemberExpression obj exprProperty computed)
               Undefined None st
       \<and> evaluate host (Suc fuel) (AssignmentExpression (MemberExpression obj exprProperty computed) val) env st0
           = andThen (evaluate host fuel val env st0) (\<lambda>w s.
               lookupOrMutObject host (evaluate host fuel) env (MemberExpression obj exprProperty computed)
                 w None s)
       \<and> (c = ObjectVal a \<and> symbolOf exprProperty = Some key \<and> key \<noteq> [] \<longrightarrow>
            lookupOrMutObject host (evaluate host fuel) env (MemberExpression obj exprProperty computed) v None st
              = (if v = Undefined then (Ok (mapGet a (Some key) st1), st1)
                 else (Ok v, mapSet a (Some key) v st1)))
       \<and> (c = ArrayVal a \<and> evaluate host fuel exprProperty env st1 = (Ok (NumberVal n), st2) \<longrightarrow>
            lookupOrMutObject host (evaluate host fuel) env (MemberExpression obj exprProperty computed) v
                property st
              = (if v = Undefined then (Ok (arrayGet host a n st2), st2)
                 else (Ok v, arraySet host a n v st2)))
       \<and> (c = ArrayVal a \<and> evaluate host fuel exprProperty env st1 = (Ok idx, st2)
            \<and> typeOf idx \<noteq> Some ''number'' \<longrightarrow>
            (\<exists>e. lookupOrMutObject host (evaluate host fuel) env (MemberExpression obj exprProperty computed) v
                    property st = (Throw e, st2)))
       \<and> mapGet a (Some key) (mapSet a (Some key) v st1) = v
       \<and> envs (mapSet a (Some key) v st1) = envs st1
       \<and> arrayGet host a n (arraySet host a n v st2) = v
       \<and> envs (arraySet host a n v st2) = envs st2"
proof -
  let ?ev = "evaluate host fuel"
  let ?e = "MemberExpression obj exprProperty computed"
  have u: "lookupOrMutObject host ?ev env ?e w p st = accessSlot host ?ev env exprProperty w p c st1" for w p
    using assms by (simp only: lookupOrMutObject_container) simp
  have c1: "evaluate host (Suc fuel) ?e env st = lookupOrMutObject host ?ev env ?e Undefined None st"
    by (simp add: dispatch_def evaluateMemberExpression_def del: lookupOrMutObject.simps)
  have c2: "evaluate host (Suc fuel) (AssignmentExpression ?e val) env st0
           = andThen (?ev val env st0) (\<lambda>w s. lookupOrMutObject host ?ev env ?e w None s)"
    by (simp add: dispatch_def evaluateAssignment_def evaluateMemberExpression_def
          del: lookupOrMutObject.simps)
  have c3: "c = ObjectVal a \<and> symbolOf exprProperty = Some key \<and> key \<noteq> [] \<longrightarrow>
            lookupOrMutObject host ?ev env ?e v None st
              = (if v = Undefined then (Ok (mapGet a (Some key) st1), st1)
                 else (Ok v, mapSet a (Some key) v st1))"
    unfolding u by (simp add: accessSlot_object)
  have c4: "c = ArrayVal a \<and> ?ev exprProperty env st1 = (Ok (NumberVal n), st2) \<longrightarrow>
            lookupOrMutObject host ?ev env ?e v property st
              = (if v = Undefined then (Ok (arrayGet host a n st2), st2)
                 else (Ok v, arraySet host a n v st2))"
    unfolding u using accessSlot_array [of ?ev exprProperty env st1 n st2 host v property a] by blast
  have c5: "c = ArrayVal a \<and> ?ev exprProperty env st1 = (Ok idx, st2) \<and> typeOf idx \<noteq> Some ''number'' \<longrightarrow>
            (\<exists>e. lookupOrMutObject host ?ev env ?e v property st = (Throw e, st2))"
    unfolding u using array_index_not_number [of ?ev exprProperty env st1 idx st2 host v property a] by blast
  note c6 = mapGet_mapSet [of a "Some key" v st1] envs_mapSet [of a "Some key" v st1]
    arrayGet_arraySet [of host a n v st2] envs_arraySet [of host a n v st2]
  from c1 c2 c3 c4 c5 c6 show ?thesis by (intro conjI)
qed

text \<open>
  The specification's example: after \<open>const a = {"x": 1}; let b = a;\<close> the write
  \<open>b.x = 2\<close> makes \<open>a.x\<close> read 2. And in the array \<open>xs = ["e"]\<close>, \<open>xs[0]\<close> reads "e"
  and \<open>xs["0"]\<close> raises.
\<close>

theorem C5_path_resolution_witness:
  "fst (evaluate intHost 3 (MemberExpression (Identifier ''a'') (Identifier ''x'') False) 0
          (snd (evaluate intHost 3
                  (AssignmentExpression (MemberExpression (Identifier ''b'') (Identifier ''x'') False)
                     (NumericLiteral 2))
                  0 aliasScope)))
     = Ok (NumberVal 2)
   \<and> fst (evaluate intHost 3 (MemberExpression (Identifier ''xs'') (NumericLiteral 0) True) 0 arrayScope)
       = Ok (StringVal ''e'')
   \<and> (\<exists>e. fst (evaluate intHost 3 (MemberExpression (Identifier ''xs'') (StringLiteral ''0'') True) 0
                  arrayScope) = Throw e)"
proof -
  let ?ev = "evaluate intHost 2"
  let ?S = "aliasScope"
  let ?S1 = "mapSet 0 (Some ''x'') (NumberVal 2) ?S"
  let ?A = "arrayScope"
  have three: "(3::nat) = Suc 2" by simp
  have two: "(2::nat) = Suc 1" by simp
  \<comment> \<open>the write \<open>b.x = 2\<close>\<close>
  have "fst (lookupVariable 0 ''b'' ?S) = Ok (ObjectVal 0)" by code_simp
  then have b: "containerOf intHost ?ev 0 (Identifier ''b'') ?S = (Ok (ObjectVal 0), ?S)"
    unfolding containerOf_identifier by (rule lookupVariable_pair)
  note tb = C5_path_resolution [OF b, where exprProperty = "Identifier ''x''" and computed = False
      and val = "NumericLiteral 2" and ?st0.0 = ?S and a = 0 and key = "''x''" and v = "NumberVal 2"]
  have lit: "?ev (NumericLiteral 2) 0 ?S = (Ok (NumberVal 2), ?S)"
    unfolding two by (simp add: dispatch_def)
  have w: "evaluate intHost 3
             (AssignmentExpression (MemberExpression (Identifier ''b'') (Identifier ''x'') False)
                (NumericLiteral 2)) 0 ?S
           = (Ok (NumberVal 2), ?S1)"
    unfolding three
    using tb [THEN conjunct2, THEN conjunct1] tb [THEN conjunct2, THEN conjunct2, THEN conjunct1]
    by (simp add: lit andThen_def del: lookupOrMutObject.simps)
  \<comment> \<open>the read \<open>a.x\<close> in the store the write left\<close>
  have "fst (lookupVariable 0 ''a'' ?S1) = Ok (ObjectVal 0)" by code_simp
  then have a: "containerOf intHost ?ev 0 (Identifier ''a'') ?S1 = (Ok (ObjectVal 0), ?S1)"
    unfolding containerOf_identifier by (rule lookupVariable_pair)
  note ta = C5_path_resolution [OF a, where exprProperty = "Identifier ''x''" and computed = False
      and a = 0 and key = "''x''" and v = Undefined]
  have r: "evaluate intHost 3 (MemberExpression (Identifier ''a'') (Identifier ''x'') False) 0 ?S1
           = (Ok (NumberVal 2), ?S1)"
    unfolding three
    using ta [THEN conjunct1] ta [THEN conjunct2, THEN conjunct2, THEN conjunct1]
    by (simp add: mapGet_mapSet del: lookupOrMutObject.simps)
  have c1: "fst (evaluate intHost 3 (MemberExpression (Identifier ''a'') (Identifier ''x'') False) 0
          (snd (evaluate intHost 3
                  (AssignmentExpression (MemberExpression (Identifier ''b'') (Identifier ''x'') False)
                     (NumericLiteral 2)) 0 ?S))) = Ok (NumberVal 2)"
    by (simp only: w r fst_conv snd_conv)
  \<comment> \<open>the array \<open>xs\<close>\<close>
  have "fst (lookupVariable 0 ''xs'' ?A) = Ok (ArrayVal 0)" by code_simp
  then have x: "containerOf intHost ?ev 0 (Identifier ''xs'') ?A = (Ok (ArrayVal 0), ?A)"
    unfolding containerOf_identifier by (rule lookupVariable_pair)
  have i0: "?ev (NumericLiteral 0) 0 ?A = (Ok (NumberVal 0), ?A)"
    unfolding two by (simp add: dispatch_def)
  have istr: "?ev (StringLiteral ''0'') 0 ?A = (Ok (StringVal ''0''), ?A)"
    unfolding two by (simp add: dispatch_def)
  have g: "arrayGet intHost 0 0 ?A = StringVal ''e''" by code_simp
  note tx = C5_path_resolution [OF x, where exprProperty = "NumericLiteral 0" and computed = True
      and a = 0 and v = Undefined and n = 0 and ?st2.0 = ?A and property = None]
  have c2: "fst (evaluate intHost 3 (MemberExpression (Identifier ''xs'') (NumericLiteral 0) True) 0 ?A)
       = Ok (StringVal ''e'')"
    unfolding three
    using tx [THEN conjunct1]
          tx [THEN conjunct2, THEN conjunct2, THEN conjunct2, THEN conjunct1]
    by (simp add: i0 g del: lookupOrMutObject.simps)
  note ty = C5_path_resolution [OF x, where exprProperty = "StringLiteral ''0''" and computed = True
      and a = 0 and v = Undefined and ?st2.0 = ?A and property = None and idx = "StringVal ''0''"]
  have c3: "\<exists>e. fst (evaluate intHost 3 (MemberExpression (Identifier ''xs'') (StringLiteral ''0'') True) 0
                  ?A) = Throw e"
    unfolding three
    using ty [THEN conjunct1]
          ty [THEN conjunct2, THEN conjunct2, THEN conjunct2, THEN conjunct2, THEN conjunct1]
    by (auto simp: istr simp del: lookupOrMutObject.simps)
  from c1 c2 c3 show ?thesis by (intro conjI)
qed

section \<open>Properties of the lexer\<close>

lemma getPrevIdents_snoc:
  "getPrevIdents (ts @ [t]) = None \<longleftrightarrow>
     \<not> (tokenType t = IdentifierTok \<or> tokenType t = DotTok \<or> tokenType t = OpenBracketTok
        \<or> tokenType t = CloseBracketTok
        \<or> (tokenType t = NumberTok \<and> ts \<noteq> [] \<and> tokenType (last ts) = OpenBracketTok))"
proof (cases ts rule: rev_cases)
  case Nil
  then show ?thesis by (simp add: getPrevIdents_def)
next
  case (snoc us u)
  then show ?thesis by (auto simp: getPrevIdents_def)
qed

lemma minus_is_not_digit: "\<not> isInt (CHR ''-'')"
  by (simp add: isInt_def)

lemma step_negative_number:
  assumes "isInt d"
  shows "tokenizeStep tokens (CHR ''-'') (d # rest) =
           Lexed (tokens @ [token (CHR ''-'' # fst (scanNumber False (d # rest))) NumberTok],
                  snd (scanNumber False (d # rest)))"
  using assms by (simp add: tokenizeStep_def minus_is_not_digit split_def Let_def)

lemma step_minus:
  assumes "\<not> isInt c1" and "c1 \<noteq> CHR ''>''" and "c1 \<noteq> CHR ''-''"
  shows "tokenizeStep tokens (CHR ''-'') (c1 # rest) =
           (if getPrevIdents tokens = None then
              (if tokens = [] then LexTypeError
               else if tokenType (last tokens) \<noteq> CloseParenTok then
                 Lexed (tokens @ [token ''0'' NumberTok, token ''-'' BinaryOperatorTok], c1 # rest)
               else starCase tokens (CHR ''-'') (c1 # rest))
            else starCase tokens (CHR ''-'') (c1 # rest))"
  using assms
  by (simp add: tokenizeStep_def minus_is_not_digit minusCase_def plusCase_def src1_def)

lemma star_minus_plain:
  assumes "c1 \<noteq> CHR ''=''"
  shows "starCase tokens (CHR ''-'') (c1 # rest) = Lexed (tokens @ [token ''-'' BinaryOperatorTok], c1 # rest)"
  using assms by (simp add: starCase_def src1_def defaultCase_def TOKEN_CHARS_def)

text \<open>
  C7, as the claim states it, fails: a \<open>-\<close> right before a digit is part of the
  number whatever token precedes it. In \<open>x-1\<close> the token after the identifier \<open>x\<close> is
  the number \<open>-1\<close>, and so it is after the closing parenthesis of \<open>(x)-1\<close>.
\<close>

theorem C7_minus_before_digit_counterexample:
  "tokenize 10 ''x-1'' = Some (Lexed
     [Token ''x'' IdentifierTok ''x'', Token ''-1'' NumberTok ''-1'',
      Token ''EndOfFile'' EOFTok ''EndOfFile''])
   \<and> tokenize 10 ''(x)-1'' = Some (Lexed
     [Token ''('' OpenParenTok ''('', Token ''x'' IdentifierTok ''x'', Token '')'' CloseParenTok '')'',
      Token ''-1'' NumberTok ''-1'', Token ''EndOfFile'' EOFTok ''EndOfFile''])"
  by code_simp

text \<open>
  C7, amended. One round of the lexer on a source that starts with \<open>-\<close>:
  \<^item> before a digit, the \<open>-\<close> and the number that follows are one Number token,
    whatever the tokens emitted so far;
  \<^item> before any other character than \<open>>\<close> and \<open>-\<close>, when the last token emitted is
    neither an identifier, a dot, a bracket, a closing parenthesis nor a number right
    after an opening bracket, a Number token \<open>0\<close> is emitted and then the operator
    token \<open>-\<close>;
  \<^item> when the last token is one of those (and the next character is not \<open>=\<close> either),
    the operator token \<open>-\<close> alone is emitted.
\<close>

theorem C7_minus_sign:
  "(isInt d \<longrightarrow>
      tokenizeStep tokens (CHR ''-'') (d # rest) =
        Lexed (tokens @ [token (CHR ''-'' # fst (scanNumber False (d # rest))) NumberTok],
               snd (scanNumber False (d # rest))))
   \<and> (\<not> isInt c1 \<and> c1 \<noteq> CHR ''>'' \<and> c1 \<noteq> CHR ''-''
        \<and> tokenType t \<noteq> IdentifierTok \<and> tokenType t \<noteq> DotTok \<and> tokenType t \<noteq> OpenBracketTok
        \<and> tokenType t \<noteq> CloseBracketTok \<and> tokenType t \<noteq> CloseParenTok
        \<and> \<not> (tokenType t = NumberTok \<and> ts \<noteq> [] \<and> tokenType (last ts) = OpenBracketTok) \<longrightarrow>
      tokenizeStep (ts @ [t]) (CHR ''-'') (c1 # rest) =
        Lexed (ts @ [t, token ''0'' NumberTok, token ''-'' BinaryOperatorTok], c1 # rest))
   \<and> (\<not> isInt c1 \<and> c1 \<noteq> CHR ''>'' \<and> c1 \<noteq> CHR ''-'' \<and> c1 \<noteq> CHR ''=''
        \<and> (tokenType t = IdentifierTok \<or> tokenType t = DotTok \<or> tokenType t = OpenBracketTok
            \<or> tokenType t = CloseBracketTok \<or> tokenType t = CloseParenTok
            \<or> (tokenType t = NumberTok \<and> ts \<noteq> [] \<and> tokenType (last ts) = OpenBracketTok)) \<longrightarrow>
      tokenizeStep (ts @ [t]) (CHR ''-'') (c1 # rest) =
        Lexed (ts @ [t, token ''-'' BinaryOperatorTok], c1 # rest))"
proof (intro conjI impI)
  assume "isInt d"
  then show "tokenizeStep tokens (CHR ''-'') (d # rest) =
        Lexed (tokens @ [token (CHR ''-'' # fst (scanNumber False (d # rest))) NumberTok],
               snd (scanNumber False (d # rest)))"
    by (rule step_negative_number)
next
  assume a: "\<not> isInt c1 \<and> c1 \<noteq> CHR ''>'' \<and> c1 \<noteq> CHR ''-''
        \<and> tokenType t \<noteq> IdentifierTok \<and> tokenType t \<noteq> DotTok \<and> tokenType t \<noteq> OpenBracketTok
        \<and> tokenType t \<noteq> CloseBracketTok \<and> tokenType t \<noteq> CloseParenTok
        \<and> \<not> (tokenType t = NumberTok \<and> ts \<noteq> [] \<and> tokenType (last ts) = OpenBracketTok)"
  then have n: "getPrevIdents (ts @ [t]) = None" by (simp only: getPrevIdents_snoc) simp
  from a have d: "\<not> isInt c1" "c1 \<noteq> CHR ''>''" "c1 \<noteq> CHR ''-''" by simp_all
  note step_minus [OF d, of "ts @ [t]" rest]
  with n a show "tokenizeStep (ts @ [t]) (CHR ''-'') (c1 # rest) =
        Lexed (ts @ [t, token ''0'' NumberTok, token ''-'' BinaryOperatorTok], c1 # rest)"
    by simp
next
  assume a: "\<not> isInt c1 \<and> c1 \<noteq> CHR ''>'' \<and> c1 \<noteq> CHR ''-'' \<and> c1 \<noteq> CHR ''=''
        \<and> (tokenType t = IdentifierTok \<or> tokenType t = DotTok \<or> tokenType t = OpenBracketTok
            \<or> tokenType t = CloseBracketTok \<or> tokenType t = CloseParenTok
            \<or> (tokenType t = NumberTok \<and> ts \<noteq> [] \<and> tokenType (last ts) = OpenBracketTok))"
  then have s: "starCase (ts @ [t]) (CHR ''-'') (c1 # rest)
                = Lexed ((ts @ [t]) @ [token ''-'' BinaryOperatorTok], c1 # rest)"
    by (simp add: star_minus_plain)
  from a have k: "getPrevIdents (ts @ [t]) \<noteq> None \<or> tokenType t = CloseParenTok"
    by (simp only: getPrevIdents_snoc) blast
  from a have d: "\<not> isInt c1" "c1 \<noteq> CHR ''>''" "c1 \<noteq> CHR ''-''" by simp_all
  note step_minus [OF d, of "ts @ [t]" rest]
  with k s show "tokenizeStep (ts @ [t]) (CHR ''-'') (c1 # rest) =
        Lexed (ts @ [t, token ''-'' BinaryOperatorTok], c1 # rest)"
    by auto
qed

text \<open>After the identifier \<open>x\<close>, \<open>-1\<close> is a number; after \<open>(\<close>, \<open>-x\<close> gives \<open>0\<close> and \<open>-\<close>;
  after the identifier \<open>y\<close>, \<open>- x\<close> gives \<open>-\<close>; and \<open>(-x)\<close> is lexed as \<open>( 0 - x )\<close>.\<close>

theorem C7_minus_sign_witness:
  "isInt (CHR ''1'')
   \<and> tokenizeStep [token ''x'' IdentifierTok] (CHR ''-'') ''1''
       = Lexed ([token ''x'' IdentifierTok, token ''-1'' NumberTok], [])
   \<and> tokenizeStep [token ''('' OpenParenTok] (CHR ''-'') ''x)''
       = Lexed ([token ''('' OpenParenTok, token ''0'' NumberTok, token ''-'' BinaryOperatorTok], ''x)'')
   \<and> tokenizeStep [token ''y'' IdentifierTok] (CHR ''-'') '' x''
       = Lexed ([token ''y'' IdentifierTok, token ''-'' BinaryOperatorTok], '' x'')
   \<and> tokenize 10 ''(-x)'' = Some (Lexed
        [Token ''('' OpenParenTok ''('', Token ''0'' NumberTok ''0'',
         Token ''-'' BinaryOperatorTok ''-'', Token ''x'' IdentifierTok ''x'',
         Token '')'' CloseParenTok '')'', Token ''EndOfFile'' EOFTok ''EndOfFile''])"
proof -
  have d: "isInt (CHR ''1'')" by (simp add: isInt_def)
  have nx: "\<not> isInt (CHR ''x'')" "\<not> isInt (CHR '' '')" by (simp_all add: isInt_def)
  from C7_minus_sign [where d = "CHR ''1''" and tokens = "[token ''x'' IdentifierTok]" and rest = "[]",
         THEN conjunct1] d
  have c1: "tokenizeStep [token ''x'' IdentifierTok] (CHR ''-'') ''1''
       = Lexed ([token ''x'' IdentifierTok, token ''-1'' NumberTok], [])"
    by (simp add: isInt_def)
  from C7_minus_sign [where ?c1.0 = "CHR ''x''" and t = "token ''('' OpenParenTok" and ts = "[]"
           and rest = "'')''",
         THEN conjunct2, THEN conjunct1] nx
  have c2: "tokenizeStep [token ''('' OpenParenTok] (CHR ''-'') ''x)''
       = Lexed ([token ''('' OpenParenTok, token ''0'' NumberTok, token ''-'' BinaryOperatorTok], ''x)'')"
    by (simp add: token_def)
  from C7_minus_sign [where ?c1.0 = "CHR '' ''" and t = "token ''y'' IdentifierTok" and ts = "[]"
           and rest = "''x''",
         THEN conjunct2, THEN conjunct2] nx
  have c3: "tokenizeStep [token ''y'' IdentifierTok] (CHR ''-'') '' x''
       = Lexed ([token ''y'' IdentifierTok, token ''-'' BinaryOperatorTok], '' x'')"
    by (simp add: token_def)
  have c4: "tokenize 10 ''(-x)'' = Some (Lexed
        [Token ''('' OpenParenTok ''('', Token ''0'' NumberTok ''0'',
         Token ''-'' BinaryOperatorTok ''-'', Token ''x'' IdentifierTok ''x'',
         Token '')'' CloseParenTok '')'', Token ''EndOfFile'' EOFTok ''EndOfFile''])"
    by code_simp
  from d c1 c2 c3 c4 show ?thesis by (intro conjI)
qed

end
